theory Spec2Isabelle
  imports Main "HOL-Library.Word" "HOL-Library.AList"
begin

section \<open>The wire messages read by \<open>unmarshal_eds.go\<close>\<close>

text \<open>
  The parser reads protobuf messages through their generated Go structs. A pointer that
  may be nil is an \<open>option\<close>; every generated getter is nil-safe and returns the zero
  value of the field on a nil receiver. Go's \<open>uint32\<close> is a 32-bit word, a protobuf
  enumeration is Go's \<open>int32\<close> and so can hold values outside the declared names.
  The elements of a repeated field of a decoded message are never nil; the parser reads
  them through getters only, so a nil element would read as the message with every field
  unset.
\<close>

type_synonym uint32 = "32 word"
type_synonym int32 = "32 word"
type_synonym byte = "8 word"

record Any =
  any_TypeUrl :: string
  any_Value :: "byte list"

record SocketAddress =
  sa_Address :: string
  sa_PortValue :: uint32

text \<open>
  \<open>lbe_SocketAddress\<close> is the result of the getter chain
  \<open>GetEndpoint().GetAddress().GetSocketAddress()\<close>: \<open>None\<close> when any link of the chain
  is nil or holds another alternative of its oneof.
\<close>

record LbEndpoint =
  lbe_SocketAddress :: "SocketAddress option"
  lbe_HealthStatus :: int32
  lbe_LoadBalancingWeight :: "uint32 option"

record Locality_pb =
  loc_Region :: string
  loc_Zone :: string
  loc_SubZone :: string

record LocalityLbEndpoints =
  lle_Locality :: "Locality_pb option"
  lle_LbEndpoints :: "LbEndpoint list"
  lle_LoadBalancingWeight :: "uint32 option"
  lle_Priority :: uint32

record FractionalPercent =
  fp_Numerator :: uint32
  fp_Denominator :: int32

record DropOverload =
  do_Category :: string
  do_DropPercentage :: "FractionalPercent option"

record Policy =
  pol_DropOverloads :: "DropOverload list"

record ClusterLoadAssignment =
  cla_ClusterName :: string
  cla_Endpoints :: "LocalityLbEndpoints list"
  cla_Policy :: "Policy option"

text \<open>
  The values of the enumeration \<open>FractionalPercent.DenominatorType\<close> in the generated
  code of the Envoy API: \<open>HUNDRED = 0\<close>, \<open>TEN_THOUSAND = 1\<close>, \<open>MILLION = 2\<close>. A field
  that is absent on the wire decodes to the value 0.
\<close>

definition FractionalPercent_HUNDRED :: int32 where
  "FractionalPercent_HUNDRED = 0"

definition FractionalPercent_TEN_THOUSAND :: int32 where
  "FractionalPercent_TEN_THOUSAND = 1"

definition FractionalPercent_MILLION :: int32 where
  "FractionalPercent_MILLION = 2"

text \<open>The value \<open>HEALTHY\<close> of the wire enumeration \<open>core.v3.HealthStatus\<close>.\<close>

definition HealthStatus_HEALTHY :: int32 where
  "HealthStatus_HEALTHY = 1"

subsection \<open>Nil-safe getters\<close>

definition GetTypeUrl :: "Any option \<Rightarrow> string" where
  "GetTypeUrl r = (case r of None \<Rightarrow> [] | Some a \<Rightarrow> any_TypeUrl a)"

definition GetValue_any :: "Any option \<Rightarrow> byte list" where
  "GetValue_any r = (case r of None \<Rightarrow> [] | Some a \<Rightarrow> any_Value a)"

text \<open>\<open>UInt32Value.GetValue\<close>: a nil wrapper reads as 0.\<close>

definition GetValue :: "uint32 option \<Rightarrow> uint32" where
  "GetValue w = (case w of None \<Rightarrow> 0 | Some v \<Rightarrow> v)"

definition GetAddress :: "SocketAddress option \<Rightarrow> string" where
  "GetAddress sa = (case sa of None \<Rightarrow> [] | Some a \<Rightarrow> sa_Address a)"

definition GetPortValue :: "SocketAddress option \<Rightarrow> uint32" where
  "GetPortValue sa = (case sa of None \<Rightarrow> 0 | Some a \<Rightarrow> sa_PortValue a)"

definition GetNumerator :: "FractionalPercent option \<Rightarrow> uint32" where
  "GetNumerator p = (case p of None \<Rightarrow> 0 | Some f \<Rightarrow> fp_Numerator f)"

text \<open>
  The generated getter: \<open>if x != nil { return x.Denominator }\<close>, then
  \<open>return FractionalPercent_HUNDRED\<close>. A drop policy without percentage reads as HUNDRED.
\<close>

definition GetDenominator :: "FractionalPercent option \<Rightarrow> int32" where
  "GetDenominator p =
     (case p of None \<Rightarrow> FractionalPercent_HUNDRED | Some f \<Rightarrow> fp_Denominator f)"

definition GetPolicy :: "ClusterLoadAssignment option \<Rightarrow> Policy option" where
  "GetPolicy m = (case m of None \<Rightarrow> None | Some c \<Rightarrow> cla_Policy c)"

definition GetDropOverloads :: "Policy option \<Rightarrow> DropOverload list" where
  "GetDropOverloads p = (case p of None \<Rightarrow> [] | Some q \<Rightarrow> pol_DropOverloads q)"

section \<open>The native structs produced by the parser\<close>

record LocalityID =
  Region :: string
  Zone :: string
  SubZone :: string

record Endpoint =
  e_Address :: string
  e_Weight :: uint32
  e_HealthStatus :: int32

record Locality =
  l_ID :: LocalityID
  l_Endpoints :: "Endpoint list"
  l_Weight :: uint32
  l_Priority :: uint32

record OverloadDropConfig =
  Category :: string
  Numerator :: uint32
  Denominator :: uint32

record EndpointsUpdate =
  Drops :: "OverloadDropConfig list"
  Localities :: "Locality list"
  Raw :: "Any option"

text \<open>\<open>EndpointsUpdate{}\<close>: both slices empty, no raw payload.\<close>

definition EndpointsUpdate_zero :: EndpointsUpdate where
  "EndpointsUpdate_zero = \<lparr>Drops = [], Localities = [], Raw = None\<rparr>"


section \<open>Outcomes and errors\<close>

text \<open>
  The map from a priority to the identity strings recorded at it
  (\<open>map[uint32]map[string]bool\<close>). Only \<open>true\<close> is ever stored in an inner map, so the
  inner map is the list of its keys; the outer map is an association list with distinct
  keys, whose length is Go's \<open>len\<close>.
\<close>

type_synonym priorities = "(uint32 \<times> string list) list"

text \<open>One constructor for each \<open>fmt.Errorf\<close> of the file, with the values it formats.\<close>

datatype error =
    FailedToUnwrapResource string
  | UnexpectedResourceType string
  | FailedToUnmarshalResource string
  | LocalityWithoutID LocalityLbEndpoints
  | DuplicateLocality string uint32
  | EndpointWithZeroWeight LbEndpoint
  | PriorityMissing nat priorities

text \<open>A call either returns its results or panics (a nil pointer dereference).\<close>

datatype 'a outcome = Returns 'a | Panics

text \<open>
  Inside a loop, \<open>Inl v\<close> says that the enclosing function has executed \<open>return v\<close>;
  \<open>Inr s\<close> that the loop went on with state \<open>s\<close>.
\<close>

type_synonym 'a early = "(EndpointsUpdate \<times> error option) + 'a"

section \<open>The functions of \<open>unmarshal_eds.go\<close>\<close>

subsection \<open>\<open>parseAddress\<close>\<close>

text \<open>
  \<open>strconv.Itoa\<close>: the decimal digits, most significant first, after a minus sign for a
  negative number.
\<close>

definition digit :: "nat \<Rightarrow> char" where
  "digit d = ''0123456789'' ! d"

function formatDecimal :: "nat \<Rightarrow> string" where
  "formatDecimal n =
     (if n < 10 then [digit n] else formatDecimal (n div 10) @ [digit (n mod 10)])"
  by pat_completeness auto
termination
  by (relation "measure (\<lambda>n. n)") auto

declare formatDecimal.simps [simp del]

definition Itoa :: "int \<Rightarrow> string" where
  "Itoa i = (if i < 0 then CHR ''-'' # formatDecimal (nat (- i)) else formatDecimal (nat i))"

text \<open>\<open>net.JoinHostPort\<close>: a host that contains a colon is put in brackets.\<close>

definition JoinHostPort :: "string \<Rightarrow> string \<Rightarrow> string" where
  "JoinHostPort host port =
     (if CHR '':'' \<in> set host then ''['' @ host @ '']:'' @ port else host @ '':'' @ port)"

text \<open>\<open>int(x)\<close> of a \<open>uint32\<close> is its unsigned value (Go's \<open>int\<close> has 64 bits).\<close>

definition parseAddress :: "SocketAddress option \<Rightarrow> string" where
  "parseAddress socketAddress =
     JoinHostPort (GetAddress socketAddress) (Itoa (uint (GetPortValue socketAddress)))"

subsection \<open>\<open>parseDropPolicy\<close>\<close>

definition parseDropPolicy :: "DropOverload \<Rightarrow> OverloadDropConfig" where
  "parseDropPolicy dropPolicy =
     (let percentage = do_DropPercentage dropPolicy;
          numerator = GetNumerator percentage;
          denominator =
            (if GetDenominator percentage = FractionalPercent_HUNDRED then 100
             else if GetDenominator percentage = FractionalPercent_TEN_THOUSAND then 10000
             else if GetDenominator percentage = FractionalPercent_MILLION then 1000000
             else 0)
      in \<lparr>Category = do_Category dropPolicy, Numerator = numerator,
          Denominator = denominator\<rparr>)"

subsection \<open>\<open>parseEndpoints\<close>\<close>

text \<open>The loop over \<open>lbEndpoints\<close>; \<open>endpoints\<close> is the slice built so far.\<close>

fun parseEndpoints_loop ::
  "Endpoint list \<Rightarrow> LbEndpoint list \<Rightarrow> Endpoint list \<times> error option" where
  "parseEndpoints_loop endpoints [] = (endpoints, None)"
| "parseEndpoints_loop endpoints (lbEndpoint # rest) =
     (let weight = GetValue (lbe_LoadBalancingWeight lbEndpoint) in
      if weight = 0 then ([], Some (EndpointWithZeroWeight lbEndpoint))
      else parseEndpoints_loop
             (endpoints @
                [\<lparr>e_Address = parseAddress (lbe_SocketAddress lbEndpoint),
                  e_Weight = weight,
                  e_HealthStatus = lbe_HealthStatus lbEndpoint\<rparr>])
             rest)"

definition parseEndpoints :: "LbEndpoint list \<Rightarrow> Endpoint list \<times> error option" where
  "parseEndpoints lbEndpoints = parseEndpoints_loop [] lbEndpoints"

subsection \<open>\<open>parseEDSRespProto\<close>\<close>

text \<open>The first loop appends one parsed drop policy per entry.\<close>

fun drops_loop :: "EndpointsUpdate \<Rightarrow> DropOverload list \<Rightarrow> EndpointsUpdate" where
  "drops_loop ret [] = ret"
| "drops_loop ret (dropPolicy # rest) =
     drops_loop (ret\<lparr>Drops := Drops ret @ [parseDropPolicy dropPolicy]\<rparr>) rest"

text \<open>
  The body of the loop over \<open>m.Endpoints\<close>. \<open>ToString\<close> is the method
  \<open>LocalityID.ToString\<close>, declared outside this file; the parser drops the error it
  returns. The inner map is shared with \<open>priorities\<close>, so the assignment
  \<open>localitiesWithPriority[lidStr] = true\<close> changes the entry of \<open>priorities\<close>.
  The warning that is logged for a locality of weight 0 has no effect on the result.
\<close>

definition locality_body ::
  "(LocalityID \<Rightarrow> string) \<Rightarrow> EndpointsUpdate \<times> priorities \<Rightarrow> LocalityLbEndpoints
     \<Rightarrow> (EndpointsUpdate \<times> priorities) early" where
  "locality_body ToString st locality =
     (case st of (ret, priorities) \<Rightarrow>
       (case lle_Locality locality of
          None \<Rightarrow> Inl (EndpointsUpdate_zero, Some (LocalityWithoutID locality))
        | Some l \<Rightarrow>
            let weight = GetValue (lle_LoadBalancingWeight locality) in
            if weight = 0 then Inr (ret, priorities)
            else
              let lid = \<lparr>Region = loc_Region l, Zone = loc_Zone l, SubZone = loc_SubZone l\<rparr>;
                  priority = lle_Priority locality;
                  localitiesWithPriority =
                    (case map_of priorities priority of None \<Rightarrow> [] | Some s \<Rightarrow> s);
                  priorities1 =
                    (case map_of priorities priority of
                       None \<Rightarrow> AList.update priority [] priorities
                     | Some s \<Rightarrow> priorities);
                  lidStr = ToString lid
              in if lidStr \<in> set localitiesWithPriority
                 then Inl (EndpointsUpdate_zero, Some (DuplicateLocality lidStr priority))
                 else
                   let priorities2 =
                         AList.update priority (localitiesWithPriority @ [lidStr]) priorities1
                   in (case parseEndpoints (lle_LbEndpoints locality) of
                         (endpoints, Some err) \<Rightarrow> Inl (EndpointsUpdate_zero, Some err)
                       | (endpoints, None) \<Rightarrow>
                           Inr (ret\<lparr>Localities := Localities ret @
                                  [\<lparr>l_ID = lid, l_Endpoints = endpoints,
                                    l_Weight = GetValue (lle_LoadBalancingWeight locality),
                                    l_Priority = priority\<rparr>]\<rparr>,
                                priorities2))))"

fun locality_loop ::
  "(LocalityID \<Rightarrow> string) \<Rightarrow> EndpointsUpdate \<times> priorities \<Rightarrow> LocalityLbEndpoints list
     \<Rightarrow> (EndpointsUpdate \<times> priorities) early" where
  "locality_loop ToString st [] = Inr st"
| "locality_loop ToString st (locality # rest) =
     (case locality_body ToString st locality of
        Inl r \<Rightarrow> Inl r
      | Inr st' \<Rightarrow> locality_loop ToString st' rest)"

text \<open>
  The last loop, \<open>for i := 0; i < len(priorities); i++\<close>, looks up \<open>uint32(i)\<close>.
\<close>

function priority_loop :: "priorities \<Rightarrow> nat \<Rightarrow> unit early" where
  "priority_loop priorities i =
     (if i < length priorities then
        (if map_of priorities (word_of_nat i) = None
         then Inl (EndpointsUpdate_zero, Some (PriorityMissing i priorities))
         else priority_loop priorities (i + 1))
      else Inr ())"
  by pat_completeness auto
termination
  by (relation "measure (\<lambda>(priorities, i). length priorities - i)") auto

declare priority_loop.simps [simp del]

text \<open>
  \<open>m.GetPolicy()\<close> is nil-safe, \<open>m.Endpoints\<close> reads the field through the pointer and
  panics on a nil \<open>m\<close>.
\<close>

definition parseEDSRespProto ::
  "(LocalityID \<Rightarrow> string) \<Rightarrow> ClusterLoadAssignment option
     \<Rightarrow> (EndpointsUpdate \<times> error option) outcome" where
  "parseEDSRespProto ToString m =
     (let ret = drops_loop EndpointsUpdate_zero (GetDropOverloads (GetPolicy m)) in
      case m of
        None \<Rightarrow> Panics
      | Some msg \<Rightarrow>
          (case locality_loop ToString (ret, []) (cla_Endpoints msg) of
             Inl r \<Rightarrow> Returns r
           | Inr (ret', priorities) \<Rightarrow>
               (case priority_loop priorities 0 of
                  Inl r \<Rightarrow> Returns r
                | Inr u \<Rightarrow> Returns (ret', None))))"

subsection \<open>\<open>unmarshalEndpointsResource\<close>\<close>

text \<open>
  Three collaborators are declared outside this file and are parameters here, each with
  Go's pair of results: \<open>unwrapResource\<close> (the unwrapped resource and an error),
  \<open>IsEndpointsResource\<close> (a predicate on the type URL) and \<open>proto.Unmarshal\<close> into a
  fresh \<open>ClusterLoadAssignment\<close> (the message as decoded and an error). The message
  handed to \<open>parseEDSRespProto\<close> is the freshly allocated one, never nil. The call of
  \<open>logger.Infof\<close> has no effect on the results.
\<close>

definition unmarshalEndpointsResource ::
  "(Any option \<Rightarrow> Any option \<times> string option) \<Rightarrow> (string \<Rightarrow> bool)
     \<Rightarrow> (byte list \<Rightarrow> ClusterLoadAssignment \<times> string option)
     \<Rightarrow> (LocalityID \<Rightarrow> string) \<Rightarrow> Any option
     \<Rightarrow> (string \<times> EndpointsUpdate \<times> error option) outcome" where
  "unmarshalEndpointsResource unwrapResource IsEndpointsResource Unmarshal ToString r0 =
     (case unwrapResource r0 of
        (r, Some err) \<Rightarrow> Returns ([], EndpointsUpdate_zero, Some (FailedToUnwrapResource err))
      | (r, None) \<Rightarrow>
          if \<not> IsEndpointsResource (GetTypeUrl r)
          then Returns ([], EndpointsUpdate_zero, Some (UnexpectedResourceType (GetTypeUrl r)))
          else
            (case Unmarshal (GetValue_any r) of
               (cla, Some err) \<Rightarrow>
                 Returns ([], EndpointsUpdate_zero, Some (FailedToUnmarshalResource err))
             | (cla, None) \<Rightarrow>
                 (case parseEDSRespProto ToString (Some cla) of
                    Panics \<Rightarrow> Panics
                  | Returns (u, Some err) \<Rightarrow>
                      Returns (cla_ClusterName cla, EndpointsUpdate_zero, Some err)
                  | Returns (u, None) \<Rightarrow>
                      Returns (cla_ClusterName cla, u\<lparr>Raw := r\<rparr>, None))))"

subsection \<open>\<open>UnmarshalEndpoints\<close>\<close>

text \<open>
  The pair of an update and an error that the batch layer stores for one resource
  (\<open>EndpointsUpdateErrTuple\<close>).
\<close>

type_synonym EndpointsUpdateErrTuple = "EndpointsUpdate \<times> error option"

text \<open>
  Modelled from the spec: \<open>processAllResources\<close>, the loop over the resources of one
  response, is declared outside this file. The spec (section 4.2): every resource is
  handed to the resource parser, in order; its outcome, the update or the error, is
  recorded in the mapping against the name the parser returns; a failure does not stop
  the loop; a later resource of the same name overwrites an earlier one. The metadata and
  the response-level error that it also returns are left out.
\<close>

fun processAllResources ::
  "(Any option \<Rightarrow> Any option \<times> string option) \<Rightarrow> (string \<Rightarrow> bool)
     \<Rightarrow> (byte list \<Rightarrow> ClusterLoadAssignment \<times> string option)
     \<Rightarrow> (LocalityID \<Rightarrow> string) \<Rightarrow> Any option list
     \<Rightarrow> (string \<rightharpoonup> EndpointsUpdateErrTuple)
     \<Rightarrow> (string \<rightharpoonup> EndpointsUpdateErrTuple) outcome" where
  "processAllResources unwrapResource IsEndpointsResource Unmarshal ToString [] update =
     Returns update"
| "processAllResources unwrapResource IsEndpointsResource Unmarshal ToString (r # rest) update =
     (case unmarshalEndpointsResource unwrapResource IsEndpointsResource Unmarshal ToString r of
        Panics \<Rightarrow> Panics
      | Returns (name, u, err) \<Rightarrow>
          processAllResources unwrapResource IsEndpointsResource Unmarshal ToString rest
            (update(name \<mapsto> (u, err))))"

text \<open>
  \<open>UnmarshalEndpoints\<close> hands a fresh map to \<open>processAllResources\<close> and returns it.
\<close>

definition UnmarshalEndpoints ::
  "(Any option \<Rightarrow> Any option \<times> string option) \<Rightarrow> (string \<Rightarrow> bool)
     \<Rightarrow> (byte list \<Rightarrow> ClusterLoadAssignment \<times> string option)
     \<Rightarrow> (LocalityID \<Rightarrow> string) \<Rightarrow> Any option list
     \<Rightarrow> (string \<rightharpoonup> EndpointsUpdateErrTuple) outcome" where
  "UnmarshalEndpoints unwrapResource IsEndpointsResource Unmarshal ToString resources =
     processAllResources unwrapResource IsEndpointsResource Unmarshal ToString resources Map.empty"

section \<open>The same functions with every panic written out\<close>

text \<open>
  Go panics when a field is read through a nil pointer and when an entry of a nil map is
  assigned; reading an entry of a nil map gives the zero value. A call of a collaborator
  may panic as well. The functions below are \<open>parseEDSRespProto\<close> and
  \<open>unmarshalEndpointsResource\<close> once more, statement by statement, with each of these
  operations as a step that can panic: the collaborators and the logger return an
  \<open>outcome\<close>, \<open>l.Region\<close>, \<open>l.Zone\<close>, \<open>l.SubZone\<close> and \<open>m.Endpoints\<close> read through a
  pointer, and \<open>localitiesWithPriority[lidStr] = true\<close> assigns into a map variable that
  the lookup \<open>priorities[priority]\<close> leaves nil for a new priority, until the code makes a
  map for it. That they agree with the functions above, whose only panic is the read of
  \<open>m.Endpoints\<close> through a nil \<open>m\<close>, is proved below.
\<close>

text \<open>
  \<open>deref\<close> reads through a pointer, \<open>lookup_flag\<close> reads \<open>m[k]\<close> and \<open>assign_true\<close>
  executes \<open>m[k] = true\<close> on a map that may be nil, \<open>and_then\<close> goes on after a step
  unless it has panicked.
\<close>

definition deref :: "'a option \<Rightarrow> 'a outcome" where
  "deref p = (case p of None \<Rightarrow> Panics | Some x \<Rightarrow> Returns x)"

definition lookup_flag :: "string list option \<Rightarrow> string \<Rightarrow> bool" where
  "lookup_flag mp k = (case mp of None \<Rightarrow> False | Some s \<Rightarrow> k \<in> set s)"

definition assign_true :: "string list option \<Rightarrow> string \<Rightarrow> string list outcome" where
  "assign_true mp k = (case mp of None \<Rightarrow> Panics | Some s \<Rightarrow> Returns (s @ [k]))"

definition and_then :: "'a outcome \<Rightarrow> ('a \<Rightarrow> 'b outcome) \<Rightarrow> 'b outcome" where
  "and_then x f = (case x of Panics \<Rightarrow> Panics | Returns v \<Rightarrow> f v)"

definition locality_body_sites ::
  "(LocalityID \<Rightarrow> string outcome) \<Rightarrow> unit outcome \<Rightarrow> EndpointsUpdate \<times> priorities
     \<Rightarrow> LocalityLbEndpoints \<Rightarrow> (EndpointsUpdate \<times> priorities) early outcome" where
  "locality_body_sites ToString logger st locality =
     (case st of (ret, priorities) \<Rightarrow>
        let l = lle_Locality locality in
        if l = None
        then Returns (Inl (EndpointsUpdate_zero, Some (LocalityWithoutID locality)))
        else
          let weight = GetValue (lle_LoadBalancingWeight locality) in
          if weight = 0 then and_then logger (\<lambda>logged. Returns (Inr (ret, priorities)))
          else
            and_then (deref l) (\<lambda>lv.
              let lid = \<lparr>Region = loc_Region lv, Zone = loc_Zone lv, SubZone = loc_SubZone lv\<rparr>;
                  priority = lle_Priority locality;
                  found = map_of priorities priority;
                  localitiesWithPriority = (if found = None then Some [] else found);
                  priorities1 =
                    (if found = None then AList.update priority [] priorities else priorities)
              in and_then (ToString lid) (\<lambda>lidStr.
                   if lookup_flag localitiesWithPriority lidStr
                   then Returns
                          (Inl (EndpointsUpdate_zero, Some (DuplicateLocality lidStr priority)))
                   else
                     and_then (assign_true localitiesWithPriority lidStr) (\<lambda>stored.
                       let priorities2 = AList.update priority stored priorities1 in
                       (case parseEndpoints (lle_LbEndpoints locality) of
                          (endpoints, Some err) \<Rightarrow>
                            Returns (Inl (EndpointsUpdate_zero, Some err))
                        | (endpoints, None) \<Rightarrow>
                            Returns
                              (Inr (ret\<lparr>Localities := Localities ret @
                                      [\<lparr>l_ID = lid, l_Endpoints = endpoints,
                                        l_Weight = GetValue (lle_LoadBalancingWeight locality),
                                        l_Priority = priority\<rparr>]\<rparr>,
                                    priorities2)))))))"

fun locality_loop_sites ::
  "(LocalityID \<Rightarrow> string outcome) \<Rightarrow> unit outcome \<Rightarrow> EndpointsUpdate \<times> priorities
     \<Rightarrow> LocalityLbEndpoints list \<Rightarrow> (EndpointsUpdate \<times> priorities) early outcome" where
  "locality_loop_sites ToString logger st [] = Returns (Inr st)"
| "locality_loop_sites ToString logger st (locality # rest) =
     and_then (locality_body_sites ToString logger st locality) (\<lambda>step.
       case step of
         Inl r \<Rightarrow> Returns (Inl r)
       | Inr st' \<Rightarrow> locality_loop_sites ToString logger st' rest)"

definition parseEDSRespProto_sites ::
  "(LocalityID \<Rightarrow> string outcome) \<Rightarrow> unit outcome \<Rightarrow> ClusterLoadAssignment option
     \<Rightarrow> (EndpointsUpdate \<times> error option) outcome" where
  "parseEDSRespProto_sites ToString logger m =
     (let ret = drops_loop EndpointsUpdate_zero (GetDropOverloads (GetPolicy m)) in
      and_then (deref m) (\<lambda>msg.
        and_then (locality_loop_sites ToString logger (ret, []) (cla_Endpoints msg)) (\<lambda>looped.
          case looped of
            Inl r \<Rightarrow> Returns r
          | Inr (ret', priorities) \<Rightarrow>
              (case priority_loop priorities 0 of
                 Inl r \<Rightarrow> Returns r
               | Inr u \<Rightarrow> Returns (ret', None)))))"

definition unmarshalEndpointsResource_sites ::
  "(Any option \<Rightarrow> (Any option \<times> string option) outcome) \<Rightarrow> (string \<Rightarrow> bool outcome)
     \<Rightarrow> (byte list \<Rightarrow> (ClusterLoadAssignment \<times> string option) outcome)
     \<Rightarrow> (LocalityID \<Rightarrow> string outcome) \<Rightarrow> unit outcome \<Rightarrow> Any option
     \<Rightarrow> (string \<times> EndpointsUpdate \<times> error option) outcome" where
  "unmarshalEndpointsResource_sites unwrapResource IsEndpointsResource Unmarshal ToString logger r0 =
     and_then (unwrapResource r0) (\<lambda>unwrapped.
       case unwrapped of
         (r, Some err) \<Rightarrow>
           Returns ([], EndpointsUpdate_zero, Some (FailedToUnwrapResource err))
       | (r, None) \<Rightarrow>
           and_then (IsEndpointsResource (GetTypeUrl r)) (\<lambda>isEndpoints.
             if \<not> isEndpoints
             then Returns
                    ([], EndpointsUpdate_zero, Some (UnexpectedResourceType (GetTypeUrl r)))
             else
               and_then (Unmarshal (GetValue_any r)) (\<lambda>decoded.
                 case decoded of
                   (cla, Some err) \<Rightarrow>
                     Returns ([], EndpointsUpdate_zero, Some (FailedToUnmarshalResource err))
                 | (cla, None) \<Rightarrow>
                     and_then logger (\<lambda>logged.
                       and_then (parseEDSRespProto_sites ToString logger (Some cla)) (\<lambda>parsed.
                         case parsed of
                           (u, Some err) \<Rightarrow>
                             Returns (cla_ClusterName cla, EndpointsUpdate_zero, Some err)
                         | (u, None) \<Rightarrow>
                             Returns (cla_ClusterName cla, u\<lparr>Raw := r\<rparr>, None))))))"

section \<open>Notions of the specification\<close>

text \<open>
  The words in which the claims speak about a message. A locality entry is identified when
  it carries a locality, and surviving when it is identified and its weight is not zero.
\<close>

definition identified :: "LocalityLbEndpoints \<Rightarrow> bool" where
  "identified l = (lle_Locality l \<noteq> None)"

definition surviving :: "LocalityLbEndpoints \<Rightarrow> bool" where
  "surviving l = (lle_Locality l \<noteq> None \<and> GetValue (lle_LoadBalancingWeight l) \<noteq> 0)"

text \<open>
  The identity of an entry, and the pair the parser looks up for duplicate detection: the
  priority and the identity string.
\<close>

definition locality_id :: "LocalityLbEndpoints \<Rightarrow> LocalityID" where
  "locality_id l =
     (case lle_Locality l of
        None \<Rightarrow> \<lparr>Region = [], Zone = [], SubZone = []\<rparr>
      | Some x \<Rightarrow> \<lparr>Region = loc_Region x, Zone = loc_Zone x, SubZone = loc_SubZone x\<rparr>)"

definition tier_key :: "(LocalityID \<Rightarrow> string) \<Rightarrow> LocalityLbEndpoints \<Rightarrow> uint32 \<times> string" where
  "tier_key ToString l = (lle_Priority l, ToString (locality_id l))"

definition zero_weight_endpoint :: "LocalityLbEndpoints \<Rightarrow> bool" where
  "zero_weight_endpoint l =
     list_ex (\<lambda>e. GetValue (lbe_LoadBalancingWeight e) = 0) (lle_LbEndpoints l)"

text \<open>The first endpoint of weight zero in a list of endpoints, if there is one.\<close>

definition first_zero_weight :: "LbEndpoint list \<Rightarrow> LbEndpoint option" where
  "first_zero_weight es = find (\<lambda>e. GetValue (lbe_LoadBalancingWeight e) = 0) es"

text \<open>The native endpoint and locality that an accepted entry is turned into.\<close>

definition endpoint_of :: "LbEndpoint \<Rightarrow> Endpoint" where
  "endpoint_of e =
     \<lparr>e_Address = parseAddress (lbe_SocketAddress e),
      e_Weight = GetValue (lbe_LoadBalancingWeight e),
      e_HealthStatus = lbe_HealthStatus e\<rparr>"

definition native_locality :: "LocalityLbEndpoints \<Rightarrow> Locality" where
  "native_locality l =
     \<lparr>l_ID = locality_id l, l_Endpoints = map endpoint_of (lle_LbEndpoints l),
      l_Weight = GetValue (lle_LoadBalancingWeight l), l_Priority = lle_Priority l\<rparr>"

text \<open>
  A list of entries passes all checks of the locality loop when every entry is identified,
  no two surviving entries have the same priority and identity string, and no surviving
  entry has an endpoint of weight zero.
\<close>

definition passes :: "(LocalityID \<Rightarrow> string) \<Rightarrow> LocalityLbEndpoints list \<Rightarrow> bool" where
  "passes ToString ls =
     (list_all identified ls \<and>
      distinct (map (tier_key ToString) (filter surviving ls)) \<and>
      list_all (\<lambda>l. \<not> zero_weight_endpoint l) (filter surviving ls))"

text \<open>A set of priorities has a gap when a tier below one of its members is absent.\<close>

definition gap :: "uint32 set \<Rightarrow> bool" where
  "gap P = (\<exists>p\<in>P. \<exists>q. q < p \<and> q \<notin> P)"

text \<open>The pairs of priority and identity string that \<open>priorities\<close> holds.\<close>

definition recorded :: "priorities \<Rightarrow> (uint32 \<times> string) set" where
  "recorded ps = {(p, s). \<exists>ss. map_of ps p = Some ss \<and> s \<in> set ss}"

text \<open>
  What the loop body does to \<open>priorities\<close> when it records the identity string \<open>s\<close>
  at priority \<open>p\<close>.
\<close>

definition note_locality :: "uint32 \<Rightarrow> string \<Rightarrow> priorities \<Rightarrow> priorities" where
  "note_locality p s ps =
     AList.update p ((case map_of ps p of None \<Rightarrow> [] | Some ss \<Rightarrow> ss) @ [s])
       (case map_of ps p of None \<Rightarrow> AList.update p [] ps | Some ss \<Rightarrow> ps)"

section \<open>Sample inputs\<close>

text \<open>
  Concrete messages for the examples below. \<open>sample_ToString\<close> stands for
  \<open>LocalityID.ToString\<close> there; the general theorems hold for every such function.
\<close>

definition sample_ToString :: "LocalityID \<Rightarrow> string" where
  "sample_ToString lid = Region lid @ ''/'' @ Zone lid @ ''/'' @ SubZone lid"

definition sample_endpoint :: "uint32 \<Rightarrow> LbEndpoint" where
  "sample_endpoint w =
     \<lparr>lbe_SocketAddress = Some \<lparr>sa_Address = ''10.0.0.1'', sa_PortValue = 80\<rparr>,
      lbe_HealthStatus = HealthStatus_HEALTHY,
      lbe_LoadBalancingWeight = Some w\<rparr>"

definition sample_locality :: "string \<Rightarrow> uint32 \<Rightarrow> uint32 \<Rightarrow> uint32 list \<Rightarrow> LocalityLbEndpoints" where
  "sample_locality region priority weight endpoint_weights =
     \<lparr>lle_Locality = Some \<lparr>loc_Region = region, loc_Zone = [], loc_SubZone = []\<rparr>,
      lle_LbEndpoints = map sample_endpoint endpoint_weights,
      lle_LoadBalancingWeight = Some weight,
      lle_Priority = priority\<rparr>"

definition sample_unidentified :: "uint32 \<Rightarrow> LocalityLbEndpoints" where
  "sample_unidentified weight =
     \<lparr>lle_Locality = None, lle_LbEndpoints = [sample_endpoint 1],
      lle_LoadBalancingWeight = Some weight, lle_Priority = 0\<rparr>"

definition sample_message :: "LocalityLbEndpoints list \<Rightarrow> ClusterLoadAssignment" where
  "sample_message ls = \<lparr>cla_ClusterName = ''cluster-a'', cla_Endpoints = ls, cla_Policy = None\<rparr>"

definition sample_drop :: "string \<Rightarrow> uint32 \<Rightarrow> int32 \<Rightarrow> DropOverload" where
  "sample_drop category numerator base =
     \<lparr>do_Category = category,
      do_DropPercentage = Some \<lparr>fp_Numerator = numerator, fp_Denominator = base\<rparr>\<rparr>"

definition sample_unwrap :: "Any option \<Rightarrow> Any option \<times> string option" where
  "sample_unwrap r = (r, None)"

definition sample_IsEndpointsResource :: "string \<Rightarrow> bool" where
  "sample_IsEndpointsResource url =
     (url = ''type.googleapis.com/envoy.config.endpoint.v3.ClusterLoadAssignment'')"

definition sample_resource :: Any where
  "sample_resource =
     \<lparr>any_TypeUrl = ''type.googleapis.com/envoy.config.endpoint.v3.ClusterLoadAssignment'',
      any_Value = [1, 2, 3]\<rparr>"

definition sample_Unmarshal ::
  "ClusterLoadAssignment \<Rightarrow> byte list \<Rightarrow> ClusterLoadAssignment \<times> string option" where
  "sample_Unmarshal cla b = (cla, None)"

definition sample_unwrap_failing :: "Any option \<Rightarrow> Any option \<times> string option" where
  "sample_unwrap_failing r = (None, Some ''cannot unwrap'')"

definition sample_Unmarshal_failing ::
  "ClusterLoadAssignment \<Rightarrow> byte list \<Rightarrow> ClusterLoadAssignment \<times> string option" where
  "sample_Unmarshal_failing cla b = (cla, Some ''unexpected EOF'')"

definition sample_named :: "string \<Rightarrow> LocalityLbEndpoints list \<Rightarrow> ClusterLoadAssignment" where
  "sample_named name ls = \<lparr>cla_ClusterName = name, cla_Endpoints = ls, cla_Policy = None\<rparr>"

definition sample_payload :: "byte list \<Rightarrow> Any" where
  "sample_payload b =
     \<lparr>any_TypeUrl = ''type.googleapis.com/envoy.config.endpoint.v3.ClusterLoadAssignment'',
      any_Value = b\<rparr>"

definition sample_decode :: "byte list \<Rightarrow> ClusterLoadAssignment \<times> string option" where
  "sample_decode b =
     (if b = [1] then (sample_named ''first'' [sample_locality ''A'' 0 1 [1]], None)
      else if b = [2] then (sample_named ''second'' [sample_unidentified 1], None)
      else (sample_named ''third'' [sample_locality ''B'' 0 1 [1]], None))"

section \<open>The loops, step by step\<close>

lemma drops_loop_eq:
  "drops_loop ret ds = ret\<lparr>Drops := Drops ret @ map parseDropPolicy ds\<rparr>"
  by (induction ds arbitrary: ret) simp_all

lemma parseEndpoints_loop_ok:
  "\<not> list_ex (\<lambda>e. GetValue (lbe_LoadBalancingWeight e) = 0) es \<Longrightarrow>
   parseEndpoints_loop acc es = (acc @ map endpoint_of es, None)"
  by (induction es arbitrary: acc) (simp_all add: endpoint_of_def)

lemma parseEndpoints_loop_zero:
  "first_zero_weight es = Some e \<Longrightarrow>
   parseEndpoints_loop acc es = ([], Some (EndpointWithZeroWeight e))"
  by (induction es arbitrary: acc) (auto simp: first_zero_weight_def Let_def split: if_splits)

lemma first_zero_weight_None:
  "first_zero_weight es = None \<longleftrightarrow>
     \<not> list_ex (\<lambda>e. GetValue (lbe_LoadBalancingWeight e) = 0) es"
  by (auto simp: first_zero_weight_def find_None_iff list_ex_iff)

lemma first_zero_weight_Some:
  "first_zero_weight es = Some e \<Longrightarrow> e \<in> set es \<and> GetValue (lbe_LoadBalancingWeight e) = 0"
  by (auto simp: first_zero_weight_def find_Some_iff)

lemma recorded_Nil: "recorded [] = {}"
  by (simp add: recorded_def)

lemma map_of_note_locality:
  "map_of (note_locality p s ps) =
     (map_of ps)(p \<mapsto> (case map_of ps p of None \<Rightarrow> [] | Some ss \<Rightarrow> ss) @ [s])"
  by (auto simp: note_locality_def AList.update_conv' split: option.splits)

lemma recorded_note_locality:
  "recorded (note_locality p s ps) = insert (p, s) (recorded ps)"
  by (auto simp: recorded_def map_of_note_locality split: option.splits if_splits)

lemma keys_note_locality:
  "fst ` set (note_locality p s ps) = insert p (fst ` set ps)"
  by (auto simp: note_locality_def AList.dom_update split: option.splits)

lemma distinct_note_locality:
  "distinct (map fst ps) \<Longrightarrow> distinct (map fst (note_locality p s ps))"
  by (auto simp: note_locality_def intro!: AList.distinct_update split: option.splits)

lemma body_nil:
  "lle_Locality l = None \<Longrightarrow>
   locality_body T st l = Inl (EndpointsUpdate_zero, Some (LocalityWithoutID l))"
  by (simp add: locality_body_def split: prod.splits)

lemma body_skip:
  "lle_Locality l \<noteq> None \<Longrightarrow> GetValue (lle_LoadBalancingWeight l) = 0 \<Longrightarrow>
   locality_body T st l = Inr st"
  by (auto simp: locality_body_def split: prod.splits option.splits)

lemma in_recorded_iff:
  "(p, s) \<in> recorded ps \<longleftrightarrow> s \<in> set (case map_of ps p of None \<Rightarrow> [] | Some ss \<Rightarrow> ss)"
  by (cases "map_of ps p") (auto simp: recorded_def)

lemma body_dup:
  "surviving l \<Longrightarrow> tier_key T l \<in> recorded ps \<Longrightarrow>
   locality_body T (ret, ps) l =
     Inl (EndpointsUpdate_zero, Some (DuplicateLocality (snd (tier_key T l)) (fst (tier_key T l))))"
  by (auto simp: locality_body_def surviving_def tier_key_def locality_id_def in_recorded_iff Let_def
      split: option.splits)

lemma body_zero:
  "surviving l \<Longrightarrow> tier_key T l \<notin> recorded ps \<Longrightarrow>
   first_zero_weight (lle_LbEndpoints l) = Some e \<Longrightarrow>
   locality_body T (ret, ps) l = Inl (EndpointsUpdate_zero, Some (EndpointWithZeroWeight e))"
  using parseEndpoints_loop_zero [of "lle_LbEndpoints l" e "[]"]
  by (auto simp: locality_body_def surviving_def tier_key_def locality_id_def in_recorded_iff Let_def
      parseEndpoints_def split: option.splits)

lemma body_ok:
  "surviving l \<Longrightarrow> tier_key T l \<notin> recorded ps \<Longrightarrow> \<not> zero_weight_endpoint l \<Longrightarrow>
   locality_body T (ret, ps) l =
     Inr (ret\<lparr>Localities := Localities ret @ [native_locality l]\<rparr>,
          note_locality (lle_Priority l) (T (locality_id l)) ps)"
  using parseEndpoints_loop_ok [of "lle_LbEndpoints l" "[]"]
  by (auto simp: locality_body_def surviving_def tier_key_def locality_id_def in_recorded_iff Let_def
      zero_weight_endpoint_def parseEndpoints_def native_locality_def note_locality_def
      split: option.splits)

lemma body_Inr:
  assumes "locality_body T (ret, ps) l = Inr st1"
  shows "identified l \<and>
    (if surviving l
     then tier_key T l \<notin> recorded ps \<and> \<not> zero_weight_endpoint l \<and>
          st1 = (ret\<lparr>Localities := Localities ret @ [native_locality l]\<rparr>,
                 note_locality (lle_Priority l) (T (locality_id l)) ps)
     else st1 = (ret, ps))"
proof (cases "lle_Locality l = None")
  case True
  with assms show ?thesis by (simp add: body_nil)
next
  case ident: False
  show ?thesis
  proof (cases "GetValue (lle_LoadBalancingWeight l) = 0")
    case True
    with ident assms show ?thesis
      by (simp add: body_skip identified_def surviving_def)
  next
    case False
    with ident have surv: "surviving l" by (simp add: surviving_def)
    show ?thesis
    proof (cases "tier_key T l \<in> recorded ps")
      case True
      with surv assms show ?thesis by (simp add: body_dup)
    next
      case fresh: False
      show ?thesis
      proof (cases "zero_weight_endpoint l")
        case True
        then obtain e where "first_zero_weight (lle_LbEndpoints l) = Some e"
          using first_zero_weight_None [of "lle_LbEndpoints l"]
          by (auto simp: zero_weight_endpoint_def)
        from body_zero [OF surv fresh this, of ret] assms show ?thesis by simp
      next
        case False
        with body_ok [OF surv fresh False, of ret] assms surv fresh ident show ?thesis
          by (simp add: identified_def)
      qed
    qed
  qed
qed

lemma body_Inl:
  assumes "locality_body T (ret, ps) l = Inl r"
  shows "(lle_Locality l = None \<and> r = (EndpointsUpdate_zero, Some (LocalityWithoutID l))) \<or>
    (surviving l \<and> tier_key T l \<in> recorded ps \<and>
       r = (EndpointsUpdate_zero,
            Some (DuplicateLocality (snd (tier_key T l)) (fst (tier_key T l))))) \<or>
    (surviving l \<and> tier_key T l \<notin> recorded ps \<and>
       (\<exists>e. first_zero_weight (lle_LbEndpoints l) = Some e \<and>
          r = (EndpointsUpdate_zero, Some (EndpointWithZeroWeight e))))"
proof (cases "lle_Locality l = None")
  case True
  with assms show ?thesis by (simp add: body_nil)
next
  case ident: False
  show ?thesis
  proof (cases "GetValue (lle_LoadBalancingWeight l) = 0")
    case True
    with ident assms show ?thesis by (simp add: body_skip)
  next
    case False
    with ident have surv: "surviving l" by (simp add: surviving_def)
    show ?thesis
    proof (cases "tier_key T l \<in> recorded ps")
      case True
      with surv assms show ?thesis by (simp add: body_dup)
    next
      case fresh: False
      show ?thesis
      proof (cases "zero_weight_endpoint l")
        case True
        then obtain e where e: "first_zero_weight (lle_LbEndpoints l) = Some e"
          using first_zero_weight_None [of "lle_LbEndpoints l"]
          by (auto simp: zero_weight_endpoint_def)
        from body_zero [OF surv fresh this, of ret] assms
        have "r = (EndpointsUpdate_zero, Some (EndpointWithZeroWeight e))" by simp
        with surv fresh e show ?thesis by blast
      next
        case False
        with body_ok [OF surv fresh False, of ret] assms show ?thesis by simp
      qed
    qed
  qed
qed

lemma loop_append:
  "locality_loop T st (xs @ ys) =
     (case locality_loop T st xs of Inl r \<Rightarrow> Inl r | Inr st' \<Rightarrow> locality_loop T st' ys)"
  by (induction xs arbitrary: st) (auto split: sum.splits)

lemma loop_Inl:
  "locality_loop T st ls = Inl r \<Longrightarrow>
   \<exists>xs l ys st'. ls = xs @ l # ys \<and> locality_loop T st xs = Inr st' \<and>
      locality_body T st' l = Inl r"
proof (induction ls arbitrary: st)
  case Nil
  then show ?case by simp
next
  case (Cons a ls)
  show ?case
  proof (cases "locality_body T st a")
    case (Inl r')
    with Cons.prems have "r' = r" by simp
    with Inl have "a # ls = [] @ a # ls \<and> locality_loop T st [] = Inr st \<and>
        locality_body T st a = Inl r" by simp
    then show ?thesis by blast
  next
    case (Inr st1)
    with Cons.prems have "locality_loop T st1 ls = Inl r" by simp
    from Cons.IH [OF this] obtain xs l ys st' where
      "ls = xs @ l # ys" "locality_loop T st1 xs = Inr st'" "locality_body T st' l = Inl r"
      by blast
    with Inr have "a # ls = (a # xs) @ l # ys \<and> locality_loop T st (a # xs) = Inr st' \<and>
        locality_body T st' l = Inl r" by simp
    then show ?thesis by blast
  qed
qed

lemma passes_Nil: "passes T []"
  by (simp add: passes_def)

lemma passes_Cons:
  "passes T (a # ls) \<longleftrightarrow>
     identified a \<and> passes T ls \<and>
     (surviving a \<longrightarrow>
        tier_key T a \<notin> tier_key T ` set (filter surviving ls) \<and> \<not> zero_weight_endpoint a)"
  by (auto simp: passes_def)

lemma loop_ok:
  assumes "passes T ls" and "tier_key T ` set (filter surviving ls) \<inter> recorded ps = {}"
  shows "\<exists>ps'. locality_loop T (ret, ps) ls =
        Inr (ret\<lparr>Localities := Localities ret @ map native_locality (filter surviving ls)\<rparr>, ps') \<and>
      recorded ps' = recorded ps \<union> tier_key T ` set (filter surviving ls) \<and>
      fst ` set ps' = fst ` set ps \<union> lle_Priority ` set (filter surviving ls) \<and>
      (distinct (map fst ps) \<longrightarrow> distinct (map fst ps'))"
  using assms
proof (induction ls arbitrary: ret ps)
  case Nil
  then show ?case by simp
next
  case (Cons a ls)
  from Cons.prems(1) have ident: "lle_Locality a \<noteq> None" and rest: "passes T ls"
    by (simp_all add: passes_Cons identified_def)
  show ?case
  proof (cases "surviving a")
    case False
    with ident have "GetValue (lle_LoadBalancingWeight a) = 0" by (simp add: surviving_def)
    with ident have step: "locality_body T (ret, ps) a = Inr (ret, ps)" by (simp add: body_skip)
    from Cons.prems(2) False
    have "tier_key T ` set (filter surviving ls) \<inter> recorded ps = {}" by simp
    from Cons.IH [OF rest this, of ret] step False show ?thesis by simp
  next
    case True
    with Cons.prems have fresh: "tier_key T a \<notin> recorded ps"
      and nz: "\<not> zero_weight_endpoint a"
      and new: "tier_key T a \<notin> tier_key T ` set (filter surviving ls)"
      and disj: "tier_key T ` set (filter surviving ls) \<inter> recorded ps = {}"
      by (auto simp: passes_Cons)
    let ?ps1 = "note_locality (lle_Priority a) (T (locality_id a)) ps"
    let ?ret1 = "ret\<lparr>Localities := Localities ret @ [native_locality a]\<rparr>"
    have step: "locality_body T (ret, ps) a = Inr (?ret1, ?ps1)"
      by (rule body_ok [OF True fresh nz])
    have rec1: "recorded ?ps1 = insert (tier_key T a) (recorded ps)"
      by (simp add: recorded_note_locality tier_key_def)
    with new disj have "tier_key T ` set (filter surviving ls) \<inter> recorded ?ps1 = {}"
      by auto
    from Cons.IH [OF rest this, of ?ret1] obtain ps' where
      l: "locality_loop T (?ret1, ?ps1) ls =
        Inr (?ret1\<lparr>Localities := Localities ?ret1 @ map native_locality (filter surviving ls)\<rparr>, ps')"
      and r: "recorded ps' = recorded ?ps1 \<union> tier_key T ` set (filter surviving ls)"
      and k: "fst ` set ps' = fst ` set ?ps1 \<union> lle_Priority ` set (filter surviving ls)"
      and d: "distinct (map fst ?ps1) \<longrightarrow> distinct (map fst ps')"
      by blast
    have "locality_loop T (ret, ps) (a # ls) =
        Inr (ret\<lparr>Localities := Localities ret @ map native_locality (filter surviving (a # ls))\<rparr>, ps')"
      using step l True by simp
    moreover have "recorded ps' = recorded ps \<union> tier_key T ` set (filter surviving (a # ls))"
      using r rec1 True by auto
    moreover have "fst ` set ps' = fst ` set ps \<union> lle_Priority ` set (filter surviving (a # ls))"
      using k True by (auto simp: keys_note_locality)
    moreover have "distinct (map fst ps) \<longrightarrow> distinct (map fst ps')"
      using d by (simp add: distinct_note_locality)
    ultimately show ?thesis by blast
  qed
qed

lemma loop_Inr:
  "locality_loop T (ret, ps) ls = Inr st' \<Longrightarrow>
   passes T ls \<and> tier_key T ` set (filter surviving ls) \<inter> recorded ps = {}"
proof (induction ls arbitrary: ret ps)
  case Nil
  then show ?case by (simp add: passes_Nil)
next
  case (Cons a ls)
  from Cons.prems obtain st1 where step: "locality_body T (ret, ps) a = Inr st1"
    and more: "locality_loop T st1 ls = Inr st'"
    by (auto split: sum.splits)
  note b = body_Inr [OF step]
  show ?case
  proof (cases "surviving a")
    case False
    with b have "st1 = (ret, ps)" and "identified a" by simp_all
    with Cons.IH [of ret ps] more False show ?thesis by (simp add: passes_Cons)
  next
    case True
    let ?ps1 = "note_locality (lle_Priority a) (T (locality_id a)) ps"
    from True b have st1: "st1 = (ret\<lparr>Localities := Localities ret @ [native_locality a]\<rparr>, ?ps1)"
      and fresh: "tier_key T a \<notin> recorded ps" and nz: "\<not> zero_weight_endpoint a"
      and ident: "identified a"
      by simp_all
    from Cons.IH [of _ ?ps1] more st1
    have rest: "passes T ls" and disj: "tier_key T ` set (filter surviving ls) \<inter> recorded ?ps1 = {}"
      by simp_all
    have "recorded ?ps1 = insert (tier_key T a) (recorded ps)"
      by (simp add: recorded_note_locality tier_key_def)
    with disj have "tier_key T a \<notin> tier_key T ` set (filter surviving ls)"
      and "tier_key T ` set (filter surviving ls) \<inter> recorded ps = {}"
      by auto
    with rest fresh nz ident True show ?thesis by (auto simp: passes_Cons)
  qed
qed

section \<open>The parser as a whole\<close>

lemma priority_loop_Inr:
  "priority_loop ps i = Inr u \<longleftrightarrow>
     (\<forall>j. i \<le> j \<and> j < length ps \<longrightarrow> word_of_nat j \<in> fst ` set ps)"
proof (induction ps i rule: priority_loop.induct)
  case (1 ps i)
  show ?case
  proof (cases "i < length ps")
    case False
    then show ?thesis by (auto simp: priority_loop.simps)
  next
    case True
    show ?thesis
    proof (cases "map_of ps (word_of_nat i :: uint32) = None")
      case missing: True
      then have "(word_of_nat i :: uint32) \<notin> fst ` set ps" by (simp add: map_of_eq_None_iff)
      with True missing show ?thesis
        by (subst priority_loop.simps) auto
    next
      case False
      then have here: "(word_of_nat i :: uint32) \<in> fst ` set ps" by (simp add: map_of_eq_None_iff)
      have "(\<forall>j. i \<le> j \<and> j < length ps \<longrightarrow> (word_of_nat j :: uint32) \<in> fst ` set ps) \<longleftrightarrow>
          (\<forall>j. i + 1 \<le> j \<and> j < length ps \<longrightarrow> (word_of_nat j :: uint32) \<in> fst ` set ps)"
      proof (intro iffI allI impI)
        fix j
        assume "\<forall>j. i \<le> j \<and> j < length ps \<longrightarrow> (word_of_nat j :: uint32) \<in> fst ` set ps"
          and "i + 1 \<le> j \<and> j < length ps"
        then show "(word_of_nat j :: uint32) \<in> fst ` set ps" by simp
      next
        fix j
        assume H: "\<forall>j. i + 1 \<le> j \<and> j < length ps \<longrightarrow> (word_of_nat j :: uint32) \<in> fst ` set ps"
          and j: "i \<le> j \<and> j < length ps"
        show "(word_of_nat j :: uint32) \<in> fst ` set ps"
        proof (cases "j = i")
          case True
          with here show ?thesis by simp
        next
          case False
          with j have "i + 1 \<le> j \<and> j < length ps" by simp
          with H show ?thesis by blast
        qed
      qed
      moreover have "priority_loop ps i = priority_loop ps (i + 1)"
        by (subst priority_loop.simps) (simp only: True False if_True if_False)
      ultimately show ?thesis
        using "1.IH" [OF True False] by simp
    qed
  qed
qed

lemma priority_loop_Inl:
  "priority_loop ps i = Inl r \<Longrightarrow>
   \<exists>j. i \<le> j \<and> j < length ps \<and> word_of_nat j \<notin> fst ` set ps \<and>
       r = (EndpointsUpdate_zero, Some (PriorityMissing j ps))"
proof (induction ps i rule: priority_loop.induct)
  case (1 ps i)
  show ?case
  proof (cases "i < length ps")
    case False
    with "1.prems" show ?thesis by (simp add: priority_loop.simps)
  next
    case True
    show ?thesis
    proof (cases "map_of ps (word_of_nat i :: uint32) = None")
      case missing: True
      then have "(word_of_nat i :: uint32) \<notin> fst ` set ps" by (simp add: map_of_eq_None_iff)
      moreover from True missing "1.prems"
      have "r = (EndpointsUpdate_zero, Some (PriorityMissing i ps))"
        by (simp add: priority_loop.simps)
      ultimately show ?thesis using True by blast
    next
      case False
      have "priority_loop ps i = priority_loop ps (i + 1)"
        by (subst priority_loop.simps) (simp only: True False if_True if_False)
      with "1.prems" have "priority_loop ps (i + 1) = Inl r" by simp
      from "1.IH" [OF True False this] show ?thesis by auto
    qed
  qed
qed

lemma keys_contiguous:
  fixes ps :: priorities
  assumes d: "distinct (map fst ps)"
    and all: "\<forall>j<length ps. word_of_nat j \<in> fst ` set ps"
  shows "fst ` set ps = {p. unat p < length ps}"
proof -
  let ?n = "length ps"
  let ?K = "fst ` set ps"
  have cardK: "card ?K = ?n"
    using d distinct_card [of "map fst ps"] by simp
  have "card ?K \<le> card (UNIV :: uint32 set)"
    by (rule card_mono) simp_all
  then have bound: "?n \<le> 2 ^ 32" using cardK by (simp add: card_word)
  have img: "(word_of_nat ` {..<?n} :: uint32 set) = {p. unat p < ?n}"
  proof (rule set_eqI, rule iffI)
    fix p :: uint32
    assume "p \<in> word_of_nat ` {..<?n}"
    then obtain j where j: "j < ?n" and p: "p = word_of_nat j" by auto
    from j bound have "unat (word_of_nat j :: uint32) = j"
      by (intro of_nat_inverse) simp_all
    with j p show "p \<in> {p. unat p < ?n}" by simp
  next
    fix p :: uint32
    assume "p \<in> {p. unat p < ?n}"
    then have "unat p \<in> {..<?n}" by simp
    then have "word_of_nat (unat p) \<in> (word_of_nat ` {..<?n} :: uint32 set)" by (rule imageI)
    then show "p \<in> word_of_nat ` {..<?n}" by simp
  qed
  have sub: "{p. unat p < ?n} \<subseteq> ?K"
  proof
    fix p :: uint32
    assume "p \<in> {p. unat p < ?n}"
    then have "unat p < ?n" by simp
    with all have "(word_of_nat (unat p) :: uint32) \<in> ?K" by blast
    then show "p \<in> ?K" by simp
  qed
  have "inj_on (word_of_nat :: nat \<Rightarrow> uint32) {..<?n}"
  proof (rule inj_onI)
    fix x y assume "x \<in> {..<?n}" "y \<in> {..<?n}"
      and eq: "(word_of_nat x :: uint32) = word_of_nat y"
    then have x: "x < 2 ^ LENGTH(32)" and y: "y < 2 ^ LENGTH(32)" using bound by simp_all
    have ux: "unat (word_of_nat x :: uint32) = x"
      by (rule of_nat_inverse [OF refl x])
    have uy: "unat (word_of_nat y :: uint32) = y"
      by (rule of_nat_inverse [OF refl y])
    from eq have "unat (word_of_nat x :: uint32) = unat (word_of_nat y :: uint32)"
      by (rule arg_cong)
    then show "x = y" by (simp only: ux uy)
  qed
  then have "card (word_of_nat ` {..<?n} :: uint32 set) = ?n"
    by (simp add: card_image)
  with img cardK have eq: "card {p :: uint32. unat p < ?n} = card ?K" by simp
  have "finite ?K" by simp
  from card_subset_eq [OF this sub eq] show ?thesis by simp
qed

lemma card_below: "j \<le> 2 ^ 32 \<Longrightarrow> card {p :: uint32. unat p < j} = j"
proof -
  assume b: "j \<le> 2 ^ 32"
  have img: "(word_of_nat ` {..<j} :: uint32 set) = {p. unat p < j}"
  proof (rule set_eqI, rule iffI)
    fix p :: uint32
    assume "p \<in> word_of_nat ` {..<j}"
    then obtain i where i: "i < j" and p: "p = word_of_nat i" by auto
    from i b have "i < 2 ^ LENGTH(32)" by simp
    from of_nat_inverse [OF refl this] have "unat (word_of_nat i :: uint32) = i" .
    with i p show "p \<in> {p. unat p < j}" by simp
  next
    fix p :: uint32
    assume "p \<in> {p. unat p < j}"
    then have "unat p \<in> {..<j}" by simp
    then have "word_of_nat (unat p) \<in> (word_of_nat ` {..<j} :: uint32 set)" by (rule imageI)
    then show "p \<in> word_of_nat ` {..<j}" by simp
  qed
  have "inj_on (word_of_nat :: nat \<Rightarrow> uint32) {..<j}"
  proof (rule inj_onI)
    fix x y assume "x \<in> {..<j}" "y \<in> {..<j}"
      and eq: "(word_of_nat x :: uint32) = word_of_nat y"
    then have x: "x < 2 ^ LENGTH(32)" and y: "y < 2 ^ LENGTH(32)" using b by simp_all
    have ux: "unat (word_of_nat x :: uint32) = x"
      by (rule of_nat_inverse [OF refl x])
    have uy: "unat (word_of_nat y :: uint32) = y"
      by (rule of_nat_inverse [OF refl y])
    from eq have "unat (word_of_nat x :: uint32) = unat (word_of_nat y :: uint32)"
      by (rule arg_cong)
    then show "x = y" by (simp only: ux uy)
  qed
  then have "card (word_of_nat ` {..<j} :: uint32 set) = j"
    by (simp add: card_image)
  with img show ?thesis by simp
qed

lemma missing_tier_gap:
  fixes ps :: priorities
  assumes d: "distinct (map fst ps)" and j: "j < length ps"
    and m: "(word_of_nat j :: uint32) \<notin> fst ` set ps"
  shows "gap (fst ` set ps)"
proof -
  let ?K = "fst ` set ps"
  have cardK: "card ?K = length ps"
    using d distinct_card [of "map fst ps"] by simp
  have "card ?K \<le> card (UNIV :: uint32 set)"
    by (rule card_mono) simp_all
  then have bound: "length ps \<le> 2 ^ 32" using cardK by (simp add: card_word)
  with j have jb: "j < 2 ^ LENGTH(32)" by simp
  have uj: "unat (word_of_nat j :: uint32) = j"
    by (rule of_nat_inverse [OF refl jb])
  have "\<not> ?K \<subseteq> {p. unat p < j}"
  proof
    assume "?K \<subseteq> {p. unat p < j}"
    then have "card ?K \<le> card {p :: uint32. unat p < j}"
      by (intro card_mono) simp_all
    with cardK card_below [of j] jb j show False by simp
  qed
  then have "\<exists>p\<in>?K. \<not> unat p < j" by blast
  then obtain p where p: "p \<in> ?K" and ge: "j \<le> unat p"
    by (auto simp: not_less)
  from p m have "p \<noteq> word_of_nat j" by blast
  have "unat p \<noteq> j"
  proof
    assume "unat p = j"
    then have "(word_of_nat (unat p) :: uint32) = word_of_nat j" by (rule arg_cong)
    with \<open>p \<noteq> word_of_nat j\<close> show False by simp
  qed
  with ge have "j < unat p" by simp
  with uj have "(word_of_nat j :: uint32) < p" by (simp add: word_less_nat_alt)
  with p m show ?thesis unfolding gap_def by blast
qed

lemma no_gap_below: "\<not> gap {p :: uint32. unat p < n}"
  by (auto simp: gap_def word_less_nat_alt)

lemma parse_unfold:
  "parseEDSRespProto T (Some m) =
     (case locality_loop T
            (\<lparr>Drops = map parseDropPolicy (GetDropOverloads (cla_Policy m)),
              Localities = [], Raw = None\<rparr>, []) (cla_Endpoints m) of
        Inl r \<Rightarrow> Returns r
      | Inr st \<Rightarrow>
          (case priority_loop (snd st) 0 of
             Inl r \<Rightarrow> Returns r
           | Inr u \<Rightarrow> Returns (fst st, None)))"
  by (simp add: parseEDSRespProto_def drops_loop_eq GetPolicy_def EndpointsUpdate_zero_def
      split: sum.splits prod.splits)

lemma loop_Inl_error:
  "locality_loop T (ret, ps) ls = Inl r \<Longrightarrow> \<exists>e. r = (EndpointsUpdate_zero, Some e)"
proof -
  assume "locality_loop T (ret, ps) ls = Inl r"
  from loop_Inl [OF this] obtain l st' where "locality_body T st' l = Inl r" by blast
  then show ?thesis using body_Inl [of T "fst st'" "snd st'" l r] by auto
qed

text \<open>What a successful parse tells about the message, and what it returns.\<close>

lemma parse_success:
  assumes "parseEDSRespProto T (Some m) = Returns (u, None)"
  shows "passes T (cla_Endpoints m)"
    and "u = \<lparr>Drops = map parseDropPolicy (GetDropOverloads (cla_Policy m)),
              Localities = map native_locality (filter surviving (cla_Endpoints m)),
              Raw = None\<rparr>"
    and "\<exists>n. lle_Priority ` set (filter surviving (cla_Endpoints m)) = {p. unat p < n}"
proof -
  let ?ret = "\<lparr>Drops = map parseDropPolicy (GetDropOverloads (cla_Policy m)),
              Localities = [], Raw = None\<rparr>"
  let ?ls = "cla_Endpoints m"
  from assms obtain st where loop: "locality_loop T (?ret, []) ?ls = Inr st"
    and chk: "priority_loop (snd st) 0 = Inr ()" and u: "u = fst st"
    using loop_Inl_error [of T ?ret "[]" ?ls] priority_loop_Inl [of _ 0]
    by (auto simp: parse_unfold split: sum.splits)
  from loop_Inr [of T ?ret "[]" ?ls st] loop show p: "passes T ?ls" by simp
  from loop_ok [OF p, of "[]" ?ret] loop obtain ps' where
    st: "st = (?ret\<lparr>Localities := Localities ?ret @ map native_locality (filter surviving ?ls)\<rparr>, ps')"
    and keys: "fst ` set ps' = lle_Priority ` set (filter surviving ?ls)"
    and d: "distinct (map fst ps')"
    by (auto simp: recorded_Nil)
  from st u show "u = \<lparr>Drops = map parseDropPolicy (GetDropOverloads (cla_Policy m)),
              Localities = map native_locality (filter surviving (cla_Endpoints m)),
              Raw = None\<rparr>" by simp
  from chk st have "\<forall>j<length ps'. (word_of_nat j :: uint32) \<in> fst ` set ps'"
    by (simp add: priority_loop_Inr)
  from keys_contiguous [OF d this] keys
  show "\<exists>n. lle_Priority ` set (filter surviving ?ls) = {p. unat p < n}" by auto
qed

lemma parse_error_zero:
  "parseEDSRespProto T (Some m) = Returns (u, Some e) \<Longrightarrow> u = EndpointsUpdate_zero"
  using loop_Inl_error [of T _ "[]" "cla_Endpoints m"] priority_loop_Inl [of _ 0]
  by (fastforce simp: parse_unfold split: sum.splits)

lemma parse_returns: "\<exists>u e. parseEDSRespProto T (Some m) = Returns (u, e)"
  using loop_Inl_error [of T _ "[]" "cla_Endpoints m"] priority_loop_Inl [of _ 0]
  by (fastforce simp: parse_unfold split: sum.splits)

text \<open>The first entry that fails a check decides the result.\<close>

lemma parse_first_failure:
  assumes ls: "cla_Endpoints m = xs @ l # ys" and p: "passes T xs"
    and b: "\<And>ret ps. recorded ps = tier_key T ` set (filter surviving xs) \<Longrightarrow>
              locality_body T (ret, ps) l = Inl r"
  shows "parseEDSRespProto T (Some m) = Returns r"
proof -
  let ?ret = "\<lparr>Drops = map parseDropPolicy (GetDropOverloads (cla_Policy m)),
              Localities = [], Raw = None\<rparr>"
  from loop_ok [OF p, of "[]" ?ret] obtain ret' ps' where
    xs: "locality_loop T (?ret, []) xs = Inr (ret', ps')"
    and r: "recorded ps' = tier_key T ` set (filter surviving xs)"
    by (auto simp: recorded_Nil)
  from b [OF r] have "locality_body T (ret', ps') l = Inl r" .
  with xs have "locality_loop T (?ret, []) (xs @ l # ys) = Inl r"
    by (simp add: loop_append)
  with ls show ?thesis by (simp add: parse_unfold)
qed

lemma parse_loop_failure:
  assumes "parseEDSRespProto T (Some m) = Returns (u, Some e)"
    and "\<And>j ps. e \<noteq> PriorityMissing j ps"
  shows "\<exists>xs l ys ret ps. cla_Endpoints m = xs @ l # ys \<and> passes T xs \<and>
      recorded ps = tier_key T ` set (filter surviving xs) \<and>
      locality_body T (ret, ps) l = Inl (u, Some e)"
proof -
  let ?ret = "\<lparr>Drops = map parseDropPolicy (GetDropOverloads (cla_Policy m)),
              Localities = [], Raw = None\<rparr>"
  let ?ls = "cla_Endpoints m"
  from assms have loop: "locality_loop T (?ret, []) ?ls = Inl (u, Some e)"
    using priority_loop_Inl [of _ 0 "(u, Some e)"]
    by (auto simp: parse_unfold split: sum.splits)
  from loop_Inl [OF this] obtain xs l ys st' where
    ls: "?ls = xs @ l # ys" and xs: "locality_loop T (?ret, []) xs = Inr st'"
    and b: "locality_body T st' l = Inl (u, Some e)"
    by blast
  from loop_Inr [OF xs] have p: "passes T xs" by simp
  from loop_ok [OF p, of "[]" ?ret] xs have "recorded (snd st') = tier_key T ` set (filter surviving xs)"
    by (auto simp: recorded_Nil)
  with ls p b show ?thesis by (metis prod.collapse)
qed

lemma parse_priority_failure:
  assumes "parseEDSRespProto T (Some m) = Returns (u, Some (PriorityMissing i ps))"
  shows "passes T (cla_Endpoints m)"
    and "distinct (map fst ps)"
    and "fst ` set ps = lle_Priority ` set (filter surviving (cla_Endpoints m))"
    and "i < length ps"
    and "word_of_nat i \<notin> fst ` set ps"
proof -
  let ?ret = "\<lparr>Drops = map parseDropPolicy (GetDropOverloads (cla_Policy m)),
              Localities = [], Raw = None\<rparr>"
  let ?ls = "cla_Endpoints m"
  have "locality_loop T (?ret, []) ?ls \<noteq> Inl (u, Some (PriorityMissing i ps))"
  proof
    assume "locality_loop T (?ret, []) ?ls = Inl (u, Some (PriorityMissing i ps))"
    from loop_Inl [OF this] obtain l st' where
      "locality_body T st' l = Inl (u, Some (PriorityMissing i ps))" by blast
    with body_Inl [of T "fst st'" "snd st'" l] show False by auto
  qed
  with assms obtain st where loop: "locality_loop T (?ret, []) ?ls = Inr st"
    and chk: "priority_loop (snd st) 0 = Inl (u, Some (PriorityMissing i ps))"
    by (auto simp: parse_unfold split: sum.splits)
  from priority_loop_Inl [OF chk] have ps: "ps = snd st" and i: "i < length (snd st)"
    and m: "word_of_nat i \<notin> fst ` set (snd st)" by auto
  from loop_Inr [of T ?ret "[]" ?ls st] loop show p: "passes T ?ls" by simp
  from loop_ok [OF p, of "[]" ?ret] loop obtain ps' where "snd st = ps'"
    and "fst ` set ps' = lle_Priority ` set (filter surviving ?ls)"
    and "distinct (map fst ps')"
    by (auto simp: recorded_Nil)
  with ps i m show "distinct (map fst ps)"
    and "fst ` set ps = lle_Priority ` set (filter surviving (cla_Endpoints m))"
    and "i < length ps" and "word_of_nat i \<notin> fst ` set ps"
    by simp_all
qed

lemma loop_skip:
  assumes "lle_Locality l \<noteq> None" and "GetValue (lle_LoadBalancingWeight l) = 0"
  shows "locality_loop T st (xs @ l # ys) = locality_loop T st (xs @ ys)"
  using assms by (simp add: loop_append body_skip split: sum.splits)

lemma parseDropPolicy_fields:
  "parseDropPolicy d =
     \<lparr>Category = do_Category d,
      Numerator = (case do_DropPercentage d of None \<Rightarrow> 0 | Some f \<Rightarrow> fp_Numerator f),
      Denominator =
        (case do_DropPercentage d of
           None \<Rightarrow> 100
         | Some f \<Rightarrow>
             if fp_Denominator f = FractionalPercent_HUNDRED then 100
             else if fp_Denominator f = FractionalPercent_TEN_THOUSAND then 10000
             else if fp_Denominator f = FractionalPercent_MILLION then 1000000
             else 0)\<rparr>"
  by (simp add: parseDropPolicy_def GetNumerator_def GetDenominator_def Let_def
      split: option.splits)

section \<open>Resources and batches\<close>

lemma unmarshal_returns:
  "\<exists>name u err.
     unmarshalEndpointsResource unwrapResource IsEndpointsResource Unmarshal ToString r0 =
       Returns (name, u, err)"
proof -
  obtain r uerr where uw: "unwrapResource r0 = (r, uerr)" by (cases "unwrapResource r0")
  obtain cla derr where dec: "Unmarshal (GetValue_any r) = (cla, derr)"
    by (cases "Unmarshal (GetValue_any r)")
  obtain u e where p: "parseEDSRespProto ToString (Some cla) = Returns (u, e)"
    using parse_returns by blast
  from uw dec p show ?thesis
    by (cases uerr; cases derr; cases e; cases "IsEndpointsResource (GetTypeUrl r)")
      (simp_all add: unmarshalEndpointsResource_def)
qed

lemma unmarshal_envelope_failure:
  assumes "snd (unwrapResource r0) \<noteq> None \<or>
      \<not> IsEndpointsResource (GetTypeUrl (fst (unwrapResource r0))) \<or>
      snd (Unmarshal (GetValue_any (fst (unwrapResource r0)))) \<noteq> None"
  shows "\<exists>e. unmarshalEndpointsResource unwrapResource IsEndpointsResource Unmarshal ToString r0 =
      Returns ([], EndpointsUpdate_zero, Some e)"
proof -
  obtain r uerr where uw: "unwrapResource r0 = (r, uerr)" by (cases "unwrapResource r0")
  obtain cla derr where dec: "Unmarshal (GetValue_any r) = (cla, derr)"
    by (cases "Unmarshal (GetValue_any r)")
  from assms uw dec show ?thesis
    by (cases uerr; cases derr; cases "IsEndpointsResource (GetTypeUrl r)")
      (auto simp: unmarshalEndpointsResource_def)
qed

lemma unmarshal_decoded:
  assumes "unwrapResource r0 = (r, None)"
    and "IsEndpointsResource (GetTypeUrl r)"
    and "Unmarshal (GetValue_any r) = (cla, None)"
  shows "\<exists>u u' err.
      parseEDSRespProto ToString (Some cla) = Returns (u', err) \<and>
      unmarshalEndpointsResource unwrapResource IsEndpointsResource Unmarshal ToString r0 =
        Returns (cla_ClusterName cla, u, err)"
proof -
  obtain u' err where r: "parseEDSRespProto ToString (Some cla) = Returns (u', err)"
    using parse_returns by blast
  with assms show ?thesis
    by (cases err) (simp_all add: unmarshalEndpointsResource_def)
qed

lemma batch_keys:
  "\<exists>upd. processAllResources uw ie um ts rs update = Returns upd \<and>
     dom update \<subseteq> dom upd \<and>
     (\<forall>r\<in>set rs. \<forall>name u err.
        unmarshalEndpointsResource uw ie um ts r = Returns (name, u, err) \<longrightarrow> name \<in> dom upd)"
proof (induction rs arbitrary: update)
  case Nil
  then show ?case by simp
next
  case (Cons r rs)
  obtain name u err where r: "unmarshalEndpointsResource uw ie um ts r = Returns (name, u, err)"
    using unmarshal_returns by blast
  from Cons.IH [of "update(name \<mapsto> (u, err))"] obtain upd where
    a: "processAllResources uw ie um ts rs (update(name \<mapsto> (u, err))) = Returns upd"
    and b: "dom (update(name \<mapsto> (u, err))) \<subseteq> dom upd"
    and c: "\<forall>r\<in>set rs. \<forall>name u err.
        unmarshalEndpointsResource uw ie um ts r = Returns (name, u, err) \<longrightarrow> name \<in> dom upd"
    by blast
  from a r have "processAllResources uw ie um ts (r # rs) update = Returns upd" by simp
  moreover from b have "dom update \<subseteq> dom upd" and "name \<in> dom upd" by auto
  ultimately show ?case using c r by auto
qed

lemma batch_append:
  "processAllResources uw ie um ts (rs @ rs') update =
     (case processAllResources uw ie um ts rs update of
        Panics \<Rightarrow> Panics
      | Returns upd \<Rightarrow> processAllResources uw ie um ts rs' upd)"
  by (induction rs arbitrary: update) (auto split: outcome.splits prod.splits)

lemma batch_last:
  assumes "unmarshalEndpointsResource uw ie um ts r = Returns (name, u, err)"
  shows "\<exists>upd. processAllResources uw ie um ts (rs @ [r]) update = Returns upd \<and>
     upd name = Some (u, err)"
proof -
  from batch_keys [of uw ie um ts rs update] obtain upd0 where
    "processAllResources uw ie um ts rs update = Returns upd0" by blast
  with assms show ?thesis by (simp add: batch_append)
qed

section \<open>No step panics\<close>

lemma locality_body_sites_eq:
  "locality_body_sites (\<lambda>x. Returns (T x)) (Returns ()) st l = Returns (locality_body T st l)"
  by (cases st; cases "lle_Locality l"; cases "map_of (snd st) (lle_Priority l)")
    (auto simp: locality_body_sites_def locality_body_def Let_def and_then_def deref_def
      lookup_flag_def assign_true_def split: prod.splits option.splits)

lemma locality_loop_sites_eq:
  "locality_loop_sites (\<lambda>x. Returns (T x)) (Returns ()) st ls = Returns (locality_loop T st ls)"
  by (induction ls arbitrary: st)
    (auto simp: locality_body_sites_eq and_then_def split: sum.splits)

lemma parseEDSRespProto_sites_eq:
  "parseEDSRespProto_sites (\<lambda>x. Returns (T x)) (Returns ()) mo = parseEDSRespProto T mo"
  by (cases mo)
    (auto simp: parseEDSRespProto_sites_def parseEDSRespProto_def locality_loop_sites_eq
      and_then_def deref_def Let_def split: sum.splits prod.splits)

lemma unmarshalEndpointsResource_sites_eq:
  "unmarshalEndpointsResource_sites (\<lambda>x. Returns (uw x)) (\<lambda>x. Returns (ie x))
     (\<lambda>x. Returns (um x)) (\<lambda>x. Returns (T x)) (Returns ()) r0 =
   unmarshalEndpointsResource uw ie um T r0"
  by (auto simp: unmarshalEndpointsResource_sites_def unmarshalEndpointsResource_def
      parseEDSRespProto_sites_eq and_then_def
      split: prod.splits option.splits outcome.splits)

lemma returning_function:
  assumes "\<forall>x. f x \<noteq> Panics"
  shows "\<exists>g. f = (\<lambda>x. Returns (g x))"
proof -
  from assms have "\<forall>x. \<exists>v. f x = Returns v"
    by (metis outcome.exhaust)
  then obtain g where "\<forall>x. f x = Returns (g x)" by metis
  then have "f = (\<lambda>x. Returns (g x))" by (simp add: fun_eq_iff)
  then show ?thesis by blast
qed

lemma sites_panic_is_collaborators:
  assumes "unmarshalEndpointsResource_sites unwrap_call type_call decode_call string_call
      log_call r0 = Panics"
  shows "(\<exists>x. unwrap_call x = Panics) \<or> (\<exists>x. type_call x = Panics) \<or>
    (\<exists>x. decode_call x = Panics) \<or> (\<exists>x. string_call x = Panics) \<or> log_call = Panics"
proof (rule ccontr)
  assume "\<not> ?thesis"
  then have a: "\<forall>x. unwrap_call x \<noteq> Panics" and b: "\<forall>x. type_call x \<noteq> Panics"
    and c: "\<forall>x. decode_call x \<noteq> Panics" and d: "\<forall>x. string_call x \<noteq> Panics"
    and e: "log_call \<noteq> Panics" by simp_all
  from returning_function [OF a] obtain uw where uw: "unwrap_call = (\<lambda>x. Returns (uw x))" ..
  from returning_function [OF b] obtain ie where ie: "type_call = (\<lambda>x. Returns (ie x))" ..
  from returning_function [OF c] obtain um where um: "decode_call = (\<lambda>x. Returns (um x))" ..
  from returning_function [OF d] obtain ts where ts: "string_call = (\<lambda>x. Returns (ts x))" ..
  from e have lg: "log_call = Returns ()" by (cases log_call) simp_all
  from assms have "unmarshalEndpointsResource uw ie um ts r0 = Panics"
    by (simp add: uw ie um ts lg unmarshalEndpointsResource_sites_eq)
  with unmarshal_returns [of uw ie um ts r0] show False by auto
qed

section \<open>Evaluating the parser on the sample inputs\<close>

lemmas sample_defs = sample_ToString_def sample_endpoint_def sample_locality_def
  sample_unidentified_def sample_message_def

lemmas eval_defs = parseEDSRespProto_def GetPolicy_def GetDropOverloads_def EndpointsUpdate_zero_def
  locality_body_def GetValue_def parseEndpoints_def priority_loop.simps Let_def sample_defs

lemmas spec_defs = passes_def identified_def surviving_def tier_key_def locality_id_def
  zero_weight_endpoint_def GetValue_def sample_defs

lemma gap_0_2: "gap {0, 2}"
  unfolding gap_def by (rule bexI [of _ 2], rule exI [of _ 1]) simp_all

section \<open>Claims\<close>

subsection \<open>C1: priority tiers are contiguous\<close>

text \<open>
  C1, as amended. When the parser succeeds, the priorities carried by the returned
  localities are exactly the \<open>n\<close> tiers \<open>0, ..., n - 1\<close> for some \<open>n\<close>, which is 0
  when no locality survives. A message whose surviving (identified, non-zero-weight)
  localities occupy a priority set with a gap is always rejected. The error is the
  missing-priority error if and only if there is such a gap and the locality loop itself
  raises no error (every entry is identified, no surviving entry repeats a pair of priority
  and identity string, and no surviving entry has an endpoint of weight 0); the tier that
  the error names is absent from the surviving priorities.
\<close>

theorem C1_priorities_contiguous:
  "(parseEDSRespProto T (Some m) = Returns (u, None) \<longrightarrow>
      (\<exists>n. l_Priority ` set (Localities u) = {p. unat p < n})) \<and>
   (gap (lle_Priority ` set (filter surviving (cla_Endpoints m))) \<longrightarrow>
      (\<exists>e. parseEDSRespProto T (Some m) = Returns (EndpointsUpdate_zero, Some e))) \<and>
   ((\<exists>i ps. parseEDSRespProto T (Some m) =
        Returns (EndpointsUpdate_zero, Some (PriorityMissing i ps))) \<longleftrightarrow>
      gap (lle_Priority ` set (filter surviving (cla_Endpoints m))) \<and>
      passes T (cla_Endpoints m)) \<and>
   (parseEDSRespProto T (Some m) = Returns (u, Some (PriorityMissing i ps)) \<longrightarrow>
      word_of_nat i \<notin> lle_Priority ` set (filter surviving (cla_Endpoints m)))"
proof -
  let ?ls = "cla_Endpoints m"
  let ?P = "lle_Priority ` set (filter surviving ?ls)"
  let ?missing = "\<exists>i ps. parseEDSRespProto T (Some m) =
        Returns (EndpointsUpdate_zero, Some (PriorityMissing i ps))"
  have success: "parseEDSRespProto T (Some m) = Returns (u, None) \<longrightarrow>
      (\<exists>n. l_Priority ` set (Localities u) = {p. unat p < n})"
  proof
    assume ok: "parseEDSRespProto T (Some m) = Returns (u, None)"
    from parse_success(2) [OF ok]
    have "l_Priority ` set (Localities u) = ?P"
      by (simp add: image_image native_locality_def)
    with parse_success(3) [OF ok]
    show "\<exists>n. l_Priority ` set (Localities u) = {p. unat p < n}" by simp
  qed
  have rejected: "gap ?P \<longrightarrow>
      (\<exists>e. parseEDSRespProto T (Some m) = Returns (EndpointsUpdate_zero, Some e))"
  proof
    assume g: "gap ?P"
    obtain u' e where r: "parseEDSRespProto T (Some m) = Returns (u', e)"
      using parse_returns by blast
    show "\<exists>e. parseEDSRespProto T (Some m) = Returns (EndpointsUpdate_zero, Some e)"
    proof (cases e)
      case None
      with r parse_success(3) [of T m u'] g no_gap_below show ?thesis by auto
    next
      case (Some e')
      with r parse_error_zero [of T m u' e'] show ?thesis by auto
    qed
  qed
  have missing: "?missing \<longleftrightarrow> gap ?P \<and> passes T ?ls"
  proof
    assume ?missing
    then obtain j qs where r: "parseEDSRespProto T (Some m) =
        Returns (EndpointsUpdate_zero, Some (PriorityMissing j qs))" by blast
    note f = parse_priority_failure [OF r]
    from missing_tier_gap [OF f(2) f(4) f(5)] f(3) f(1)
    show "gap ?P \<and> passes T ?ls" by simp
  next
    assume "gap ?P \<and> passes T ?ls"
    then have g: "gap ?P" and p: "passes T ?ls" by simp_all
    let ?ret = "\<lparr>Drops = map parseDropPolicy (GetDropOverloads (cla_Policy m)),
                Localities = [], Raw = None\<rparr>"
    from loop_ok [OF p, of "[]" ?ret] obtain ret' ps' where
      loop: "locality_loop T (?ret, []) ?ls = Inr (ret', ps')"
      and keys: "fst ` set ps' = ?P" and d: "distinct (map fst ps')"
      by (auto simp: recorded_Nil)
    show ?missing
    proof (cases "priority_loop ps' 0")
      case (Inr x)
      then have "\<forall>j<length ps'. (word_of_nat j :: uint32) \<in> fst ` set ps'"
        by (simp add: priority_loop_Inr)
      from keys_contiguous [OF d this] keys g no_gap_below show ?thesis by auto
    next
      case (Inl r)
      from priority_loop_Inl [OF this] obtain j where
        "r = (EndpointsUpdate_zero, Some (PriorityMissing j ps'))"
        by blast
      with Inl loop show ?thesis by (auto simp: parse_unfold)
    qed
  qed
  have names: "parseEDSRespProto T (Some m) = Returns (u, Some (PriorityMissing i ps)) \<longrightarrow>
      word_of_nat i \<notin> ?P"
  proof
    assume r: "parseEDSRespProto T (Some m) = Returns (u, Some (PriorityMissing i ps))"
    from parse_priority_failure(3,5) [OF r]
    show "word_of_nat i \<notin> ?P" by simp
  qed
  show ?thesis
    by (intro conjI) (rule success, rule rejected, rule missing, rule names)
qed

text \<open>
  The theorem at two messages: priorities 0 and 1 are accepted, priorities 0 and 2 are
  rejected with the missing-priority error.
\<close>

theorem C1_priorities_contiguous_witness:
  "(\<exists>n. l_Priority ` set
      [\<lparr>l_ID = \<lparr>Region = ''A'', Zone = [], SubZone = []\<rparr>,
         l_Endpoints = [\<lparr>e_Address = ''10.0.0.1:80'', e_Weight = 1, e_HealthStatus = 1\<rparr>],
         l_Weight = 1, l_Priority = 0\<rparr>,
       \<lparr>l_ID = \<lparr>Region = ''B'', Zone = [], SubZone = []\<rparr>,
         l_Endpoints = [\<lparr>e_Address = ''10.0.0.1:80'', e_Weight = 1, e_HealthStatus = 1\<rparr>],
         l_Weight = 1, l_Priority = 1\<rparr>] = {p. unat p < n}) \<and>
   (\<exists>i ps. parseEDSRespProto sample_ToString
       (Some (sample_message [sample_locality ''A'' 0 1 [1], sample_locality ''B'' 2 1 [1]])) =
        Returns (EndpointsUpdate_zero, Some (PriorityMissing i ps)))"
proof -
  let ?m1 = "sample_message [sample_locality ''A'' 0 1 [1], sample_locality ''B'' 1 1 [1]]"
  let ?m2 = "sample_message [sample_locality ''A'' 0 1 [1], sample_locality ''B'' 2 1 [1]]"
  let ?u1 = "\<lparr>Drops = [], Localities =
      [\<lparr>l_ID = \<lparr>Region = ''A'', Zone = [], SubZone = []\<rparr>,
         l_Endpoints = [\<lparr>e_Address = ''10.0.0.1:80'', e_Weight = 1, e_HealthStatus = 1\<rparr>],
         l_Weight = 1, l_Priority = 0\<rparr>,
       \<lparr>l_ID = \<lparr>Region = ''B'', Zone = [], SubZone = []\<rparr>,
         l_Endpoints = [\<lparr>e_Address = ''10.0.0.1:80'', e_Weight = 1, e_HealthStatus = 1\<rparr>],
         l_Weight = 1, l_Priority = 1\<rparr>], Raw = None\<rparr>"
  have ok: "parseEDSRespProto sample_ToString (Some ?m1) = Returns (?u1, None)"
    by (simp add: eval_defs HealthStatus_HEALTHY_def parseAddress_def JoinHostPort_def
        GetAddress_def GetPortValue_def Itoa_def formatDecimal.simps digit_def)
  have "lle_Priority ` set (filter surviving (cla_Endpoints ?m2)) = {0, 2}"
    by (simp add: spec_defs)
  then have g: "gap (lle_Priority ` set (filter surviving (cla_Endpoints ?m2)))"
    by (simp only: gap_0_2)
  have p: "passes sample_ToString (cla_Endpoints ?m2)"
    by (simp add: spec_defs)
  from C1_priorities_contiguous [where T = sample_ToString and m = ?m1 and u = ?u1] ok
  have a: "\<exists>n. l_Priority ` set (Localities ?u1) = {p. unat p < n}" by blast
  from C1_priorities_contiguous [where T = sample_ToString and m = ?m2] g p
  have b: "\<exists>i ps. parseEDSRespProto sample_ToString (Some ?m2) =
      Returns (EndpointsUpdate_zero, Some (PriorityMissing i ps))" by blast
  from a b show ?thesis by simp
qed

text \<open>
  C1 as stated fails twice. The empty message is accepted and its update carries no
  priority at all, so the set of priorities is not \<open>{0, ..., k}\<close> for any \<open>k\<close>. And a
  message whose surviving localities have priorities 0 and 2, followed by an entry without
  identity, is rejected with the missing-identity error, not the missing-priority one.
\<close>

theorem C1_counterexample:
  "parseEDSRespProto sample_ToString (Some (sample_message [])) =
     Returns (EndpointsUpdate_zero, None) \<and>
   l_Priority ` set (Localities EndpointsUpdate_zero) = {} \<and>
   lle_Priority ` set (filter surviving
      [sample_locality ''A'' 0 1 [1], sample_locality ''B'' 2 1 [1], sample_unidentified 1]) =
     {0, 2} \<and>
   parseEDSRespProto sample_ToString
      (Some (sample_message
         [sample_locality ''A'' 0 1 [1], sample_locality ''B'' 2 1 [1], sample_unidentified 1])) =
     Returns (EndpointsUpdate_zero, Some (LocalityWithoutID (sample_unidentified 1)))"
  by (simp add: eval_defs surviving_def)

subsection \<open>C2: duplicate localities\<close>

text \<open>
  C2, as amended. The parser returns the duplicate-locality error naming the identity
  string \<open>s\<close> and the priority \<open>p\<close> if and only if some surviving (identified,
  non-zero-weight) entry has that pair, an earlier surviving entry has it too, and every
  entry before it passes all checks. A message in which two surviving entries share the
  pair of priority and identity string is always rejected, with whichever error the first
  failing entry raises. When no two surviving entries share the pair, in particular when an
  identity only repeats at different priorities, no duplicate-locality error is returned.
\<close>

theorem C2_duplicate_locality:
  "((\<exists>u. parseEDSRespProto T (Some m) = Returns (u, Some (DuplicateLocality s p))) \<longleftrightarrow>
      (\<exists>xs l ys. cla_Endpoints m = xs @ l # ys \<and> passes T xs \<and> surviving l \<and>
         tier_key T l = (p, s) \<and> (p, s) \<in> tier_key T ` set (filter surviving xs))) \<and>
   (\<not> distinct (map (tier_key T) (filter surviving (cla_Endpoints m))) \<longrightarrow>
      (\<exists>e. parseEDSRespProto T (Some m) = Returns (EndpointsUpdate_zero, Some e))) \<and>
   (distinct (map (tier_key T) (filter surviving (cla_Endpoints m))) \<longrightarrow>
      (\<forall>u s' p'. parseEDSRespProto T (Some m) \<noteq> Returns (u, Some (DuplicateLocality s' p'))))"
proof -
  let ?ls = "cla_Endpoints m"
  have only_if: "\<exists>xs l ys. ?ls = xs @ l # ys \<and> passes T xs \<and> surviving l \<and>
         tier_key T l = (p', s') \<and> (p', s') \<in> tier_key T ` set (filter surviving xs)"
    if r: "parseEDSRespProto T (Some m) = Returns (u, Some (DuplicateLocality s' p'))"
    for u s' p'
  proof -
    from parse_loop_failure [OF r] obtain xs l ys ret ps where
      ls: "?ls = xs @ l # ys" and px: "passes T xs"
      and rec: "recorded ps = tier_key T ` set (filter surviving xs)"
      and b: "locality_body T (ret, ps) l = Inl (u, Some (DuplicateLocality s' p'))"
      by auto
    from body_Inl [OF b] have "surviving l \<and> tier_key T l \<in> recorded ps \<and>
        s' = snd (tier_key T l) \<and> p' = fst (tier_key T l)" by auto
    with ls px rec show ?thesis by auto
  qed
  have "if": "parseEDSRespProto T (Some m) =
        Returns (EndpointsUpdate_zero, Some (DuplicateLocality s p))"
    if d: "?ls = xs @ l # ys" "passes T xs" "surviving l" "tier_key T l = (p, s)"
      "(p, s) \<in> tier_key T ` set (filter surviving xs)"
    for xs l ys
  proof (rule parse_first_failure [OF d(1) d(2)])
    fix ret ps
    assume "recorded ps = tier_key T ` set (filter surviving xs)"
    with d have "tier_key T l \<in> recorded ps" by simp
    from body_dup [OF d(3) this, of ret] d(4)
    show "locality_body T (ret, ps) l =
        Inl (EndpointsUpdate_zero, Some (DuplicateLocality s p))" by simp
  qed
  have first: "(\<exists>u. parseEDSRespProto T (Some m) = Returns (u, Some (DuplicateLocality s p))) \<longleftrightarrow>
      (\<exists>xs l ys. ?ls = xs @ l # ys \<and> passes T xs \<and> surviving l \<and>
         tier_key T l = (p, s) \<and> (p, s) \<in> tier_key T ` set (filter surviving xs))"
    using only_if "if" by blast
  have second: "\<exists>e. parseEDSRespProto T (Some m) = Returns (EndpointsUpdate_zero, Some e)"
    if nd: "\<not> distinct (map (tier_key T) (filter surviving ?ls))"
  proof -
    obtain u e where r: "parseEDSRespProto T (Some m) = Returns (u, e)"
      using parse_returns by blast
    show ?thesis
    proof (cases e)
      case None
      with r parse_success(1) [of T m u] nd show ?thesis by (simp add: passes_def)
    next
      case (Some e')
      with r parse_error_zero [of T m u e'] show ?thesis by auto
    qed
  qed
  have third: "parseEDSRespProto T (Some m) \<noteq> Returns (u, Some (DuplicateLocality s' p'))"
    if dist: "distinct (map (tier_key T) (filter surviving ?ls))" for u s' p'
  proof
    assume "parseEDSRespProto T (Some m) = Returns (u, Some (DuplicateLocality s' p'))"
    from only_if [OF this] obtain xs l ys where "?ls = xs @ l # ys" "surviving l"
      "tier_key T l \<in> tier_key T ` set (filter surviving xs)" by auto
    with dist show False by auto
  qed
  from first second third show ?thesis by blast
qed

text \<open>
  The theorem at two messages: identity A at priorities 0, 1 and again 0 is a duplicate at
  priority 0; identity A at priorities 0 and 1 alone is none.
\<close>

theorem C2_duplicate_locality_witness:
  "(\<exists>u. parseEDSRespProto sample_ToString
      (Some (sample_message
         [sample_locality ''A'' 0 1 [1], sample_locality ''A'' 1 1 [1],
          sample_locality ''A'' 0 1 [1]])) =
      Returns (u, Some (DuplicateLocality ''A//'' 0))) \<and>
   (\<exists>e. parseEDSRespProto sample_ToString
      (Some (sample_message
         [sample_locality ''A'' 0 1 [1], sample_locality ''A'' 1 1 [1],
          sample_locality ''A'' 0 1 [1]])) =
      Returns (EndpointsUpdate_zero, Some e)) \<and>
   parseEDSRespProto sample_ToString
      (Some (sample_message [sample_locality ''A'' 0 1 [1], sample_locality ''A'' 1 1 [1]])) \<noteq>
     Returns (EndpointsUpdate_zero, Some (DuplicateLocality ''A//'' 1))"
proof -
  let ?a0 = "sample_locality ''A'' 0 1 [1]"
  let ?a1 = "sample_locality ''A'' 1 1 [1]"
  let ?m = "sample_message [?a0, ?a1, ?a0]"
  let ?m' = "sample_message [?a0, ?a1]"
  have split: "cla_Endpoints ?m = [?a0, ?a1] @ ?a0 # []"
    by (simp add: sample_message_def)
  have px: "passes sample_ToString [?a0, ?a1]" by (simp add: spec_defs)
  have s: "surviving ?a0" by (simp add: spec_defs)
  have k: "tier_key sample_ToString ?a0 = (0, ''A//'')" by (simp add: spec_defs)
  have seen: "(0, ''A//'') \<in> tier_key sample_ToString ` set (filter surviving [?a0, ?a1])"
    by (simp add: spec_defs)
  have nd: "\<not> distinct (map (tier_key sample_ToString) (filter surviving (cla_Endpoints ?m)))"
    by (simp add: spec_defs)
  have d: "distinct (map (tier_key sample_ToString) (filter surviving (cla_Endpoints ?m')))"
    by (simp add: spec_defs)
  note inst = C2_duplicate_locality [of sample_ToString ?m "''A//''" 0]
  from inst split px s k seen
  have a: "\<exists>u. parseEDSRespProto sample_ToString (Some ?m) =
      Returns (u, Some (DuplicateLocality ''A//'' 0))" by blast
  from inst nd
  have b: "\<exists>e. parseEDSRespProto sample_ToString (Some ?m) =
      Returns (EndpointsUpdate_zero, Some e)" by blast
  from C2_duplicate_locality [of sample_ToString ?m' "''A//''" 0] d
  have c: "parseEDSRespProto sample_ToString (Some ?m') \<noteq>
     Returns (EndpointsUpdate_zero, Some (DuplicateLocality ''A//'' 1))" by blast
  from a b c show ?thesis by blast
qed

text \<open>
  C2 as stated fails: here two surviving entries share identity A at priority 0, but an
  entry without identity comes first, and the parser returns the missing-identity error.
\<close>

theorem C2_counterexample:
  "\<not> distinct (map (tier_key sample_ToString) (filter surviving
      [sample_unidentified 1, sample_locality ''A'' 0 1 [1], sample_locality ''A'' 0 1 [1]])) \<and>
   parseEDSRespProto sample_ToString
      (Some (sample_message
         [sample_unidentified 1, sample_locality ''A'' 0 1 [1], sample_locality ''A'' 0 1 [1]])) =
     Returns (EndpointsUpdate_zero, Some (LocalityWithoutID (sample_unidentified 1)))"
  by (simp add: eval_defs surviving_def tier_key_def locality_id_def)

subsection \<open>C3: localities of weight zero\<close>

text \<open>
  C3, as amended. A locality entry of weight zero that carries an identity is skipped
  entirely: the parser returns the same result, update or error, as on the message without
  that entry, so the entry causes no error, is not recorded for duplicate detection and
  does not count as a priority tier. On success the returned localities are exactly the
  surviving (identified, non-zero-weight) entries in source order, each of weight other
  than zero.
\<close>

theorem C3_zero_weight_locality_skipped:
  "(lle_Locality l \<noteq> None \<and> GetValue (lle_LoadBalancingWeight l) = 0 \<longrightarrow>
      parseEDSRespProto T (Some (m\<lparr>cla_Endpoints := xs @ l # ys\<rparr>)) =
      parseEDSRespProto T (Some (m\<lparr>cla_Endpoints := xs @ ys\<rparr>))) \<and>
   (parseEDSRespProto T (Some m) = Returns (u, None) \<longrightarrow>
      Localities u = map native_locality (filter surviving (cla_Endpoints m)) \<and>
      list_all (\<lambda>L. l_Weight L \<noteq> 0) (Localities u))"
proof (intro conjI impI)
  assume "lle_Locality l \<noteq> None \<and> GetValue (lle_LoadBalancingWeight l) = 0"
  then show "parseEDSRespProto T (Some (m\<lparr>cla_Endpoints := xs @ l # ys\<rparr>)) =
      parseEDSRespProto T (Some (m\<lparr>cla_Endpoints := xs @ ys\<rparr>))"
    by (simp add: parse_unfold loop_skip)
next
  assume ok: "parseEDSRespProto T (Some m) = Returns (u, None)"
  from parse_success(2) [OF ok]
  show "Localities u = map native_locality (filter surviving (cla_Endpoints m))" by simp
  then show "list_all (\<lambda>L. l_Weight L \<noteq> 0) (Localities u)"
    by (simp add: list_all_iff native_locality_def surviving_def)
qed

text \<open>
  The theorem at a message with two entries of weight zero: one repeats identity A at
  priority 0 and has an endpoint of weight zero, the other sits alone at priority 7.
  Neither shows in the result.
\<close>

theorem C3_zero_weight_locality_skipped_witness:
  "parseEDSRespProto sample_ToString
      (Some (sample_message
         [sample_locality ''A'' 0 1 [1], sample_locality ''A'' 0 0 [0],
          sample_locality ''C'' 7 0 [1], sample_locality ''B'' 1 1 [1]])) =
     Returns
       (\<lparr>Drops = [],
         Localities =
           [native_locality (sample_locality ''A'' 0 1 [1]),
            native_locality (sample_locality ''B'' 1 1 [1])],
         Raw = None\<rparr>, None) \<and>
   list_all (\<lambda>L. l_Weight L \<noteq> 0)
     [native_locality (sample_locality ''A'' 0 1 [1]),
      native_locality (sample_locality ''B'' 1 1 [1])]"
proof -
  let ?a = "sample_locality ''A'' 0 1 [1]"
  let ?b = "sample_locality ''B'' 1 1 [1]"
  let ?z1 = "sample_locality ''A'' 0 0 [0]"
  let ?z2 = "sample_locality ''C'' 7 0 [1]"
  let ?u = "\<lparr>Drops = [], Localities = [native_locality ?a, native_locality ?b], Raw = None\<rparr>"
  have z1: "lle_Locality ?z1 \<noteq> None \<and> GetValue (lle_LoadBalancingWeight ?z1) = 0"
    by (simp add: sample_locality_def GetValue_def)
  have z2: "lle_Locality ?z2 \<noteq> None \<and> GetValue (lle_LoadBalancingWeight ?z2) = 0"
    by (simp add: sample_locality_def GetValue_def)
  have ok: "parseEDSRespProto sample_ToString (Some (sample_message [?a, ?b])) = Returns (?u, None)"
    by (simp add: eval_defs native_locality_def locality_id_def endpoint_of_def)
  from C3_zero_weight_locality_skipped
         [where l = ?z1 and T = sample_ToString and m = "sample_message []" and xs = "[?a]"
            and ys = "[?z2, ?b]"] z1
  have "parseEDSRespProto sample_ToString (Some (sample_message [?a, ?z1, ?z2, ?b])) =
      parseEDSRespProto sample_ToString (Some (sample_message [?a, ?z2, ?b]))"
    by (simp add: sample_message_def)
  also from C3_zero_weight_locality_skipped
         [where l = ?z2 and T = sample_ToString and m = "sample_message []" and xs = "[?a]"
            and ys = "[?b]"] z2
  have "\<dots> = parseEDSRespProto sample_ToString (Some (sample_message [?a, ?b]))"
    by (simp add: sample_message_def)
  finally have skipped:
    "parseEDSRespProto sample_ToString (Some (sample_message [?a, ?z1, ?z2, ?b])) =
      Returns (?u, None)"
    using ok by simp
  from C3_zero_weight_locality_skipped
         [where T = sample_ToString and m = "sample_message [?a, ?z1, ?z2, ?b]" and u = ?u]
    skipped
  have "list_all (\<lambda>L. l_Weight L \<noteq> 0) (Localities ?u)" by blast
  with skipped show ?thesis by simp
qed

text \<open>
  C3 as stated fails: the identity is checked before the weight, so an entry of weight
  zero without identity makes the parser fail on a message that is accepted without it.
\<close>

theorem C3_counterexample:
  "GetValue (lle_LoadBalancingWeight (sample_unidentified 0)) = 0 \<and>
   parseEDSRespProto sample_ToString (Some (sample_message [sample_unidentified 0])) =
     Returns (EndpointsUpdate_zero, Some (LocalityWithoutID (sample_unidentified 0))) \<and>
   parseEDSRespProto sample_ToString (Some (sample_message [])) =
     Returns (EndpointsUpdate_zero, None)"
  by (simp add: eval_defs)

subsection \<open>C4: endpoints of weight zero\<close>

text \<open>
  C4, as amended. A message with a surviving locality that has an endpoint of weight zero
  is always rejected. The error is the zero-weight-endpoint error for the endpoint \<open>e\<close> if
  and only if \<open>e\<close> is the first endpoint of weight zero of a surviving locality that is
  the first entry to fail a check: every entry before it passes all checks and the locality
  does not repeat the pair of priority and identity string of an earlier surviving entry.
  On success every endpoint of every returned locality has a weight above zero.
\<close>

theorem C4_zero_weight_endpoint:
  "(list_ex (\<lambda>l. surviving l \<and> zero_weight_endpoint l) (cla_Endpoints m) \<longrightarrow>
      (\<exists>e. parseEDSRespProto T (Some m) = Returns (EndpointsUpdate_zero, Some e))) \<and>
   ((\<exists>u. parseEDSRespProto T (Some m) = Returns (u, Some (EndpointWithZeroWeight e))) \<longleftrightarrow>
      (\<exists>xs l ys. cla_Endpoints m = xs @ l # ys \<and> passes T xs \<and> surviving l \<and>
         tier_key T l \<notin> tier_key T ` set (filter surviving xs) \<and>
         first_zero_weight (lle_LbEndpoints l) = Some e)) \<and>
   (parseEDSRespProto T (Some m) = Returns (u, None) \<longrightarrow>
      list_all (\<lambda>L. list_all (\<lambda>E. 0 < e_Weight E) (l_Endpoints L)) (Localities u))"
proof (intro conjI impI iffI)
  assume z: "list_ex (\<lambda>l. surviving l \<and> zero_weight_endpoint l) (cla_Endpoints m)"
  obtain u' e where r: "parseEDSRespProto T (Some m) = Returns (u', e)"
    using parse_returns by blast
  show "\<exists>e. parseEDSRespProto T (Some m) = Returns (EndpointsUpdate_zero, Some e)"
  proof (cases e)
    case None
    with r parse_success(1) [of T m u'] z show ?thesis
      by (auto simp: passes_def list_all_iff list_ex_iff)
  next
    case (Some e')
    with r parse_error_zero [of T m u' e'] show ?thesis by auto
  qed
next
  assume "\<exists>u. parseEDSRespProto T (Some m) = Returns (u, Some (EndpointWithZeroWeight e))"
  then obtain u' where r: "parseEDSRespProto T (Some m) =
      Returns (u', Some (EndpointWithZeroWeight e))" by blast
  from parse_loop_failure [OF r] obtain xs l ys ret ps where
    ls: "cla_Endpoints m = xs @ l # ys" and px: "passes T xs"
    and rec: "recorded ps = tier_key T ` set (filter surviving xs)"
    and b: "locality_body T (ret, ps) l = Inl (u', Some (EndpointWithZeroWeight e))"
    by auto
  from body_Inl [OF b] have "surviving l \<and> tier_key T l \<notin> recorded ps \<and>
      first_zero_weight (lle_LbEndpoints l) = Some e" by auto
  with ls px rec show "\<exists>xs l ys. cla_Endpoints m = xs @ l # ys \<and> passes T xs \<and> surviving l \<and>
      tier_key T l \<notin> tier_key T ` set (filter surviving xs) \<and>
      first_zero_weight (lle_LbEndpoints l) = Some e" by auto
next
  assume "\<exists>xs l ys. cla_Endpoints m = xs @ l # ys \<and> passes T xs \<and> surviving l \<and>
      tier_key T l \<notin> tier_key T ` set (filter surviving xs) \<and>
      first_zero_weight (lle_LbEndpoints l) = Some e"
  then obtain xs l ys where ls: "cla_Endpoints m = xs @ l # ys" and px: "passes T xs"
    and s: "surviving l"
    and fresh: "tier_key T l \<notin> tier_key T ` set (filter surviving xs)"
    and z: "first_zero_weight (lle_LbEndpoints l) = Some e" by blast
  have "parseEDSRespProto T (Some m) =
      Returns (EndpointsUpdate_zero, Some (EndpointWithZeroWeight e))"
  proof (rule parse_first_failure [OF ls px])
    fix ret ps
    assume "recorded ps = tier_key T ` set (filter surviving xs)"
    with fresh have "tier_key T l \<notin> recorded ps" by simp
    from body_zero [OF s this z]
    show "locality_body T (ret, ps) l =
        Inl (EndpointsUpdate_zero, Some (EndpointWithZeroWeight e))" .
  qed
  then show "\<exists>u. parseEDSRespProto T (Some m) = Returns (u, Some (EndpointWithZeroWeight e))"
    by blast
next
  assume ok: "parseEDSRespProto T (Some m) = Returns (u, None)"
  from parse_success(1) [OF ok]
  have "\<forall>l\<in>set (filter surviving (cla_Endpoints m)).
      \<forall>e\<in>set (lle_LbEndpoints l). GetValue (lbe_LoadBalancingWeight e) \<noteq> 0"
    by (auto simp: passes_def list_all_iff zero_weight_endpoint_def list_ex_iff)
  with parse_success(2) [OF ok]
  show "list_all (\<lambda>L. list_all (\<lambda>E. 0 < e_Weight E) (l_Endpoints L)) (Localities u)"
    by (auto simp: list_all_iff native_locality_def endpoint_of_def word_greater_zero_iff)
qed

text \<open>
  The theorem at a message whose second locality has endpoints of weights 1 and 0, and at
  an accepted message with endpoints of weights 1 and 2.
\<close>

theorem C4_zero_weight_endpoint_witness:
  "(\<exists>e. parseEDSRespProto sample_ToString
        (Some (sample_message [sample_locality ''A'' 0 1 [1], sample_locality ''B'' 0 1 [1, 0]])) =
      Returns (EndpointsUpdate_zero, Some e)) \<and>
   (\<exists>u. parseEDSRespProto sample_ToString
        (Some (sample_message [sample_locality ''A'' 0 1 [1], sample_locality ''B'' 0 1 [1, 0]])) =
      Returns (u, Some (EndpointWithZeroWeight (sample_endpoint 0)))) \<and>
   list_all (\<lambda>L. list_all (\<lambda>E. 0 < e_Weight E) (l_Endpoints L))
     [native_locality (sample_locality ''A'' 0 1 [1, 2])]"
proof -
  let ?a = "sample_locality ''A'' 0 1 [1]"
  let ?b = "sample_locality ''B'' 0 1 [1, 0]"
  let ?m = "sample_message [?a, ?b]"
  let ?a' = "sample_locality ''A'' 0 1 [1, 2]"
  let ?u = "\<lparr>Drops = [], Localities = [native_locality ?a'], Raw = None\<rparr>"
  have ex: "list_ex (\<lambda>l. surviving l \<and> zero_weight_endpoint l) (cla_Endpoints ?m)"
    by (simp add: spec_defs)
  have first: "cla_Endpoints ?m = [?a] @ ?b # [] \<and> passes sample_ToString [?a] \<and> surviving ?b \<and>
      tier_key sample_ToString ?b \<notin> tier_key sample_ToString ` set (filter surviving [?a]) \<and>
      first_zero_weight (lle_LbEndpoints ?b) = Some (sample_endpoint 0)"
    by (simp add: spec_defs first_zero_weight_def)
  have ok: "parseEDSRespProto sample_ToString (Some (sample_message [?a'])) = Returns (?u, None)"
    by (simp add: eval_defs native_locality_def locality_id_def endpoint_of_def)
  from C4_zero_weight_endpoint [where T = sample_ToString and m = ?m] ex
  have a: "\<exists>e. parseEDSRespProto sample_ToString (Some ?m) =
      Returns (EndpointsUpdate_zero, Some e)" by blast
  from C4_zero_weight_endpoint
         [where T = sample_ToString and m = ?m and e = "sample_endpoint 0"] first
  have b: "\<exists>u. parseEDSRespProto sample_ToString (Some ?m) =
      Returns (u, Some (EndpointWithZeroWeight (sample_endpoint 0)))" by blast
  from C4_zero_weight_endpoint [where T = sample_ToString and m = "sample_message [?a']" and u = ?u]
    ok
  have c: "list_all (\<lambda>L. list_all (\<lambda>E. 0 < e_Weight E) (l_Endpoints L)) (Localities ?u)"
    by blast
  from a b c show ?thesis by simp
qed

text \<open>
  C4 as stated fails: identity A at priority 0 with one endpoint of weight zero is a
  surviving locality, yet after an entry without identity the parser returns the
  missing-identity error, and after another entry for A at priority 0 it returns the
  duplicate-locality error.
\<close>

theorem C4_counterexample:
  "surviving (sample_locality ''A'' 0 1 [0]) \<and>
   zero_weight_endpoint (sample_locality ''A'' 0 1 [0]) \<and>
   parseEDSRespProto sample_ToString
      (Some (sample_message [sample_unidentified 1, sample_locality ''A'' 0 1 [0]])) =
     Returns (EndpointsUpdate_zero, Some (LocalityWithoutID (sample_unidentified 1))) \<and>
   parseEDSRespProto sample_ToString
      (Some (sample_message [sample_locality ''A'' 0 1 [1], sample_locality ''A'' 0 1 [0]])) =
     Returns (EndpointsUpdate_zero, Some (DuplicateLocality ''A//'' 0))"
  by (simp add: eval_defs surviving_def zero_weight_endpoint_def)

subsection \<open>C5: drop policies\<close>

text \<open>
  C5, as amended. On success \<open>Drops\<close> holds one entry per drop-overload entry of the
  message, in source order. Category and numerator are copied (the numerator of an entry
  without percentage is 0). The percentage bases HUNDRED, TEN_THOUSAND and MILLION give the
  denominators 100, 10000 and 1000000; an unset base reads as HUNDRED and gives 100; every
  other value gives 0.
\<close>

theorem C5_drop_policies:
  "parseEDSRespProto T (Some m) = Returns (u, None) \<Longrightarrow>
   length (Drops u) = length (GetDropOverloads (cla_Policy m)) \<and>
   (\<forall>i<length (Drops u).
      Category (Drops u ! i) = do_Category (GetDropOverloads (cla_Policy m) ! i) \<and>
      Numerator (Drops u ! i) =
        (case do_DropPercentage (GetDropOverloads (cla_Policy m) ! i) of
           None \<Rightarrow> 0 | Some f \<Rightarrow> fp_Numerator f) \<and>
      Denominator (Drops u ! i) =
        (case do_DropPercentage (GetDropOverloads (cla_Policy m) ! i) of
           None \<Rightarrow> 100
         | Some f \<Rightarrow>
             if fp_Denominator f = FractionalPercent_HUNDRED then 100
             else if fp_Denominator f = FractionalPercent_TEN_THOUSAND then 10000
             else if fp_Denominator f = FractionalPercent_MILLION then 1000000
             else 0))"
proof -
  assume ok: "parseEDSRespProto T (Some m) = Returns (u, None)"
  from parse_success(2) [OF ok]
  have d: "Drops u = map parseDropPolicy (GetDropOverloads (cla_Policy m))" by simp
  show ?thesis
    unfolding d by (simp add: parseDropPolicy_fields)
qed

text \<open>
  The theorem at a message with five drop policies: the three named bases, the unknown
  base 7 and an entry without percentage.
\<close>

theorem C5_drop_policies_witness:
  "map Denominator
     [parseDropPolicy (sample_drop ''a'' 1 FractionalPercent_HUNDRED),
      parseDropPolicy (sample_drop ''b'' 2 FractionalPercent_TEN_THOUSAND),
      parseDropPolicy (sample_drop ''c'' 3 FractionalPercent_MILLION),
      parseDropPolicy (sample_drop ''d'' 4 7),
      parseDropPolicy \<lparr>do_Category = ''e'', do_DropPercentage = None\<rparr>] =
   [100, 10000, 1000000, 0, 100]"
proof -
  let ?ds = "[sample_drop ''a'' 1 FractionalPercent_HUNDRED,
      sample_drop ''b'' 2 FractionalPercent_TEN_THOUSAND,
      sample_drop ''c'' 3 FractionalPercent_MILLION,
      sample_drop ''d'' 4 7,
      \<lparr>do_Category = ''e'', do_DropPercentage = None\<rparr>]"
  let ?m = "\<lparr>cla_ClusterName = ''cluster-a'', cla_Endpoints = [],
             cla_Policy = Some \<lparr>pol_DropOverloads = ?ds\<rparr>\<rparr>"
  let ?u = "\<lparr>Drops = map parseDropPolicy ?ds, Localities = [], Raw = None\<rparr>"
  have ok: "parseEDSRespProto sample_ToString (Some ?m) = Returns (?u, None)"
    by (simp add: parseEDSRespProto_def GetPolicy_def GetDropOverloads_def
        EndpointsUpdate_zero_def priority_loop.simps)
  have ds: "GetDropOverloads (cla_Policy ?m) = ?ds" by (simp add: GetDropOverloads_def)
  from C5_drop_policies [OF ok]
  have all: "\<forall>i<5. Denominator (map parseDropPolicy ?ds ! i) =
        (case do_DropPercentage (?ds ! i) of
           None \<Rightarrow> 100
         | Some f \<Rightarrow>
             if fp_Denominator f = FractionalPercent_HUNDRED then 100
             else if fp_Denominator f = FractionalPercent_TEN_THOUSAND then 10000
             else if fp_Denominator f = FractionalPercent_MILLION then 1000000
             else 0)"
    unfolding ds by simp
  have "Denominator (map parseDropPolicy ?ds ! 0) = 100"
    "Denominator (map parseDropPolicy ?ds ! 1) = 10000"
    "Denominator (map parseDropPolicy ?ds ! 2) = 1000000"
    "Denominator (map parseDropPolicy ?ds ! 3) = 0"
    "Denominator (map parseDropPolicy ?ds ! 4) = 100"
    using all [rule_format, of 0] all [rule_format, of 1] all [rule_format, of 2]
      all [rule_format, of 3] all [rule_format, of 4]
    by (simp_all add: sample_drop_def FractionalPercent_HUNDRED_def
        FractionalPercent_TEN_THOUSAND_def FractionalPercent_MILLION_def)
  then show ?thesis by simp
qed

text \<open>
  C5 as stated fails for an unset base: a drop policy without percentage, and one whose
  percentage leaves the base at its zero value, both get the denominator 100, not 0.
\<close>

theorem C5_counterexample:
  "parseDropPolicy \<lparr>do_Category = ''e'', do_DropPercentage = None\<rparr> =
     \<lparr>Category = ''e'', Numerator = 0, Denominator = 100\<rparr> \<and>
   parseDropPolicy \<lparr>do_Category = ''e'',
       do_DropPercentage = Some \<lparr>fp_Numerator = 5, fp_Denominator = 0\<rparr>\<rparr> =
     \<lparr>Category = ''e'', Numerator = 5, Denominator = 100\<rparr>"
  by (simp add: parseDropPolicy_fields FractionalPercent_HUNDRED_def)

subsection \<open>C6: localities without identity\<close>




subsection \<open>C7: the name returned with an error\<close>

text \<open>
  C7, as amended. When the resource unwraps, has the endpoints type and decodes to a
  message, \<open>unmarshalEndpointsResource\<close> returns the cluster name of that message together
  with exactly the error of \<open>parseEDSRespProto\<close> on it, if any, so the declared name comes
  with every error of the structural validation; the batch layer then has that name as a
  key of its mapping, and maps it to this outcome when the resource is the last one. When
  unwrapping fails, the type is wrong or decoding fails, the function returns the empty
  name beside the error.
\<close>

theorem C7_declared_name_returned:
  "(snd (unwrapResource r0) \<noteq> None \<or>
    \<not> IsEndpointsResource (GetTypeUrl (fst (unwrapResource r0))) \<or>
    snd (Unmarshal (GetValue_any (fst (unwrapResource r0)))) \<noteq> None \<longrightarrow>
      (\<exists>e. unmarshalEndpointsResource unwrapResource IsEndpointsResource Unmarshal ToString r0 =
         Returns ([], EndpointsUpdate_zero, Some e))) \<and>
   (unwrapResource r0 = (r, None) \<and> IsEndpointsResource (GetTypeUrl r) \<and>
    Unmarshal (GetValue_any r) = (cla, None) \<longrightarrow>
      (\<exists>u u' err.
         parseEDSRespProto ToString (Some cla) = Returns (u', err) \<and>
         unmarshalEndpointsResource unwrapResource IsEndpointsResource Unmarshal ToString r0 =
           Returns (cla_ClusterName cla, u, err) \<and>
         (\<exists>upd. UnmarshalEndpoints unwrapResource IsEndpointsResource Unmarshal ToString
                  (before @ r0 # after) = Returns upd \<and>
                cla_ClusterName cla \<in> dom upd) \<and>
         (\<exists>upd. UnmarshalEndpoints unwrapResource IsEndpointsResource Unmarshal ToString
                  (before @ [r0]) = Returns upd \<and>
                upd (cla_ClusterName cla) = Some (u, err))))"
proof (intro conjI impI)
  assume "snd (unwrapResource r0) \<noteq> None \<or>
    \<not> IsEndpointsResource (GetTypeUrl (fst (unwrapResource r0))) \<or>
    snd (Unmarshal (GetValue_any (fst (unwrapResource r0)))) \<noteq> None"
  then show "\<exists>e. unmarshalEndpointsResource unwrapResource IsEndpointsResource Unmarshal
      ToString r0 = Returns ([], EndpointsUpdate_zero, Some e)"
    by (rule unmarshal_envelope_failure)
next
  assume "unwrapResource r0 = (r, None) \<and> IsEndpointsResource (GetTypeUrl r) \<and>
    Unmarshal (GetValue_any r) = (cla, None)"
  then have a: "unwrapResource r0 = (r, None)" and b: "IsEndpointsResource (GetTypeUrl r)"
    and c: "Unmarshal (GetValue_any r) = (cla, None)" by simp_all
  from unmarshal_decoded
         [where unwrapResource = unwrapResource and IsEndpointsResource = IsEndpointsResource
            and Unmarshal = Unmarshal and ToString = ToString and ?r0.0 = r0 and r = r
            and cla = cla, OF a b c]
  obtain u u' err where
    p: "parseEDSRespProto ToString (Some cla) = Returns (u', err)"
    and f: "unmarshalEndpointsResource unwrapResource IsEndpointsResource Unmarshal ToString r0 =
        Returns (cla_ClusterName cla, u, err)"
    by blast
  from batch_keys [of unwrapResource IsEndpointsResource Unmarshal ToString
      "before @ r0 # after" Map.empty] f
  have k: "\<exists>upd. UnmarshalEndpoints unwrapResource IsEndpointsResource Unmarshal ToString
      (before @ r0 # after) = Returns upd \<and> cla_ClusterName cla \<in> dom upd"
    unfolding UnmarshalEndpoints_def by fastforce
  from batch_last [OF f, of before Map.empty]
  have l: "\<exists>upd. UnmarshalEndpoints unwrapResource IsEndpointsResource Unmarshal ToString
      (before @ [r0]) = Returns upd \<and> upd (cla_ClusterName cla) = Some (u, err)"
    unfolding UnmarshalEndpoints_def .
  from p f k l show "\<exists>u u' err.
         parseEDSRespProto ToString (Some cla) = Returns (u', err) \<and>
         unmarshalEndpointsResource unwrapResource IsEndpointsResource Unmarshal ToString r0 =
           Returns (cla_ClusterName cla, u, err) \<and>
         (\<exists>upd. UnmarshalEndpoints unwrapResource IsEndpointsResource Unmarshal ToString
                  (before @ r0 # after) = Returns upd \<and>
                cla_ClusterName cla \<in> dom upd) \<and>
         (\<exists>upd. UnmarshalEndpoints unwrapResource IsEndpointsResource Unmarshal ToString
                  (before @ [r0]) = Returns upd \<and>
                upd (cla_ClusterName cla) = Some (u, err))"
    by blast
qed

text \<open>
  The theorem at a resource of another type, and at a batch of three resources named
  first, second and third, of which the second has a locality without identity.
\<close>

theorem C7_declared_name_returned_witness:
  "(\<exists>e. unmarshalEndpointsResource sample_unwrap sample_IsEndpointsResource sample_decode
       sample_ToString
       (Some \<lparr>any_TypeUrl = ''type.googleapis.com/envoy.config.cluster.v3.Cluster'',
              any_Value = [2]\<rparr>) =
      Returns ([], EndpointsUpdate_zero, Some e)) \<and>
   (\<exists>u. unmarshalEndpointsResource sample_unwrap sample_IsEndpointsResource sample_decode
       sample_ToString (Some (sample_payload [2])) =
      Returns (''second'', u, Some (LocalityWithoutID (sample_unidentified 1)))) \<and>
   (\<exists>upd. UnmarshalEndpoints sample_unwrap sample_IsEndpointsResource sample_decode
       sample_ToString
       [Some (sample_payload [1]), Some (sample_payload [2]), Some (sample_payload [3])] =
      Returns upd \<and> ''second'' \<in> dom upd) \<and>
   (\<exists>upd u. UnmarshalEndpoints sample_unwrap sample_IsEndpointsResource sample_decode
       sample_ToString [Some (sample_payload [1]), Some (sample_payload [2])] =
      Returns upd \<and>
      upd ''second'' = Some (u, Some (LocalityWithoutID (sample_unidentified 1))))"
proof -
  let ?other = "Some \<lparr>any_TypeUrl = ''type.googleapis.com/envoy.config.cluster.v3.Cluster'',
              any_Value = [2]\<rparr>"
  let ?p1 = "Some (sample_payload [1])"
  let ?p2 = "Some (sample_payload [2])"
  let ?p3 = "Some (sample_payload [3])"
  let ?cla = "sample_named ''second'' [sample_unidentified 1]"
  let ?e = "LocalityWithoutID (sample_unidentified 1)"
  have wrong: "snd (sample_unwrap ?other) \<noteq> None \<or>
      \<not> sample_IsEndpointsResource (GetTypeUrl (fst (sample_unwrap ?other))) \<or>
      snd (sample_decode (GetValue_any (fst (sample_unwrap ?other)))) \<noteq> None"
    by (simp add: sample_unwrap_def sample_IsEndpointsResource_def GetTypeUrl_def)
  have ok: "sample_unwrap ?p2 = (?p2, None) \<and> sample_IsEndpointsResource (GetTypeUrl ?p2) \<and>
      sample_decode (GetValue_any ?p2) = (?cla, None)"
    by (simp add: sample_unwrap_def sample_IsEndpointsResource_def GetTypeUrl_def
        GetValue_any_def sample_payload_def sample_decode_def)
  have name: "cla_ClusterName ?cla = ''second''" by (simp add: sample_named_def)
  have p: "parseEDSRespProto sample_ToString (Some ?cla) = Returns (EndpointsUpdate_zero, Some ?e)"
    by (simp add: eval_defs sample_named_def)
  from C7_declared_name_returned
         [where unwrapResource = sample_unwrap and IsEndpointsResource = sample_IsEndpointsResource
            and Unmarshal = sample_decode and ToString = sample_ToString and ?r0.0 = ?other]
    wrong
  have a: "\<exists>e. unmarshalEndpointsResource sample_unwrap sample_IsEndpointsResource sample_decode
      sample_ToString ?other = Returns ([], EndpointsUpdate_zero, Some e)" by blast
  from C7_declared_name_returned
         [where unwrapResource = sample_unwrap and IsEndpointsResource = sample_IsEndpointsResource
            and Unmarshal = sample_decode and ToString = sample_ToString and ?r0.0 = ?p2
            and r = ?p2 and cla = ?cla and before = "[?p1]" and after = "[?p3]"]
    ok
  obtain u u' err where
    p': "parseEDSRespProto sample_ToString (Some ?cla) = Returns (u', err)"
    and f: "unmarshalEndpointsResource sample_unwrap sample_IsEndpointsResource sample_decode
        sample_ToString ?p2 = Returns (cla_ClusterName ?cla, u, err)"
    and k: "\<exists>upd. UnmarshalEndpoints sample_unwrap sample_IsEndpointsResource sample_decode
        sample_ToString ([?p1] @ ?p2 # [?p3]) = Returns upd \<and> cla_ClusterName ?cla \<in> dom upd"
    and l: "\<exists>upd. UnmarshalEndpoints sample_unwrap sample_IsEndpointsResource sample_decode
        sample_ToString ([?p1] @ [?p2]) = Returns upd \<and>
        upd (cla_ClusterName ?cla) = Some (u, err)"
    by blast
  from p p' have err: "err = Some ?e" by simp
  from f err name have b: "\<exists>u. unmarshalEndpointsResource sample_unwrap
      sample_IsEndpointsResource sample_decode sample_ToString ?p2 =
      Returns (''second'', u, Some ?e)" by auto
  from k name have c: "\<exists>upd. UnmarshalEndpoints sample_unwrap sample_IsEndpointsResource
      sample_decode sample_ToString [?p1, ?p2, ?p3] = Returns upd \<and> ''second'' \<in> dom upd"
    by simp
  from l err name have d: "\<exists>upd u. UnmarshalEndpoints sample_unwrap sample_IsEndpointsResource
      sample_decode sample_ToString [?p1, ?p2] = Returns upd \<and>
      upd ''second'' = Some (u, Some ?e)" by auto
  from a b c d show ?thesis by blast
qed

text \<open>
  C7 as stated fails on the three envelope failures: a resource whose bytes stop after the
  cluster name second fails to decode and comes back with the empty name, and so do a
  resource that cannot be unwrapped and a resource of another type.
\<close>

theorem C7_counterexample:
  "cla_ClusterName (sample_named ''second'' []) = ''second'' \<and>
   unmarshalEndpointsResource sample_unwrap sample_IsEndpointsResource
     (sample_Unmarshal_failing (sample_named ''second'' [])) sample_ToString
     (Some (sample_payload [2])) =
     Returns ([], EndpointsUpdate_zero, Some (FailedToUnmarshalResource ''unexpected EOF'')) \<and>
   unmarshalEndpointsResource sample_unwrap_failing sample_IsEndpointsResource
     sample_decode sample_ToString (Some (sample_payload [2])) =
     Returns ([], EndpointsUpdate_zero, Some (FailedToUnwrapResource ''cannot unwrap'')) \<and>
   unmarshalEndpointsResource sample_unwrap sample_IsEndpointsResource sample_decode
     sample_ToString
     (Some \<lparr>any_TypeUrl = ''type.googleapis.com/envoy.config.cluster.v3.Cluster'',
            any_Value = [2]\<rparr>) =
     Returns ([], EndpointsUpdate_zero,
       Some (UnexpectedResourceType ''type.googleapis.com/envoy.config.cluster.v3.Cluster''))"
  by (simp add: unmarshalEndpointsResource_def sample_unwrap_def sample_unwrap_failing_def
      sample_IsEndpointsResource_def sample_Unmarshal_failing_def sample_payload_def
      sample_named_def GetTypeUrl_def GetValue_any_def)

subsection \<open>C8: one locality with one endpoint\<close>


subsection \<open>C9: the parser always returns\<close>

text \<open>
  C9. With every dereference, every map assignment and every call of a collaborator
  written out as a step that can panic, and with collaborators that return,
  \<open>unmarshalEndpointsResource\<close> and \<open>parseEDSRespProto\<close> compute what the functions
  above compute. \<open>parseEDSRespProto\<close> panics exactly on a nil message pointer, which
  \<open>unmarshalEndpointsResource\<close> never hands it; on every message it returns, with an
  update or with an error beside the zero update, and so does
  \<open>unmarshalEndpointsResource\<close> on every resource, nil included. With arbitrary
  collaborators, a panic of \<open>unmarshalEndpointsResource\<close> is a panic of a collaborator.
  All loops are total functions, so returning is not a matter of fuel.
\<close>

theorem C9_never_panics:
  "unmarshalEndpointsResource_sites (\<lambda>x. Returns (unwrapResource x))
     (\<lambda>x. Returns (IsEndpointsResource x)) (\<lambda>x. Returns (Unmarshal x))
     (\<lambda>x. Returns (ToString x)) (Returns ()) r0 =
     unmarshalEndpointsResource unwrapResource IsEndpointsResource Unmarshal ToString r0 \<and>
   parseEDSRespProto_sites (\<lambda>x. Returns (ToString x)) (Returns ()) mo =
     parseEDSRespProto ToString mo \<and>
   (parseEDSRespProto_sites (\<lambda>x. Returns (ToString x)) (Returns ()) mo = Panics \<longleftrightarrow>
      mo = None) \<and>
   ((\<exists>u. parseEDSRespProto_sites (\<lambda>x. Returns (ToString x)) (Returns ()) (Some m) =
          Returns (u, None)) \<or>
    (\<exists>e. parseEDSRespProto_sites (\<lambda>x. Returns (ToString x)) (Returns ()) (Some m) =
          Returns (EndpointsUpdate_zero, Some e))) \<and>
   ((\<exists>name u.
       unmarshalEndpointsResource_sites (\<lambda>x. Returns (unwrapResource x))
         (\<lambda>x. Returns (IsEndpointsResource x)) (\<lambda>x. Returns (Unmarshal x))
         (\<lambda>x. Returns (ToString x)) (Returns ()) r0 = Returns (name, u, None)) \<or>
    (\<exists>name e.
       unmarshalEndpointsResource_sites (\<lambda>x. Returns (unwrapResource x))
         (\<lambda>x. Returns (IsEndpointsResource x)) (\<lambda>x. Returns (Unmarshal x))
         (\<lambda>x. Returns (ToString x)) (Returns ()) r0 =
         Returns (name, EndpointsUpdate_zero, Some e))) \<and>
   (unmarshalEndpointsResource_sites unwrap_call type_call decode_call string_call log_call r1 =
      Panics \<longrightarrow>
      (\<exists>x. unwrap_call x = Panics) \<or> (\<exists>x. type_call x = Panics) \<or>
      (\<exists>x. decode_call x = Panics) \<or> (\<exists>x. string_call x = Panics) \<or>
      log_call = Panics)"
proof -
  have shape: "(\<exists>u. parseEDSRespProto ToString (Some c) = Returns (u, None)) \<or>
    (\<exists>e. parseEDSRespProto ToString (Some c) = Returns (EndpointsUpdate_zero, Some e))" for c
  proof -
    obtain u e where r: "parseEDSRespProto ToString (Some c) = Returns (u, e)"
      using parse_returns by blast
    show ?thesis
    proof (cases e)
      case None
      with r show ?thesis by blast
    next
      case (Some e')
      with r parse_error_zero [of ToString c u e'] show ?thesis by auto
    qed
  qed
  have same: "unmarshalEndpointsResource_sites (\<lambda>x. Returns (unwrapResource x))
     (\<lambda>x. Returns (IsEndpointsResource x)) (\<lambda>x. Returns (Unmarshal x))
     (\<lambda>x. Returns (ToString x)) (Returns ()) r0 =
     unmarshalEndpointsResource unwrapResource IsEndpointsResource Unmarshal ToString r0"
    by (rule unmarshalEndpointsResource_sites_eq)
  have same': "parseEDSRespProto_sites (\<lambda>x. Returns (ToString x)) (Returns ()) mo =
     parseEDSRespProto ToString mo"
    by (rule parseEDSRespProto_sites_eq)
  have nil: "parseEDSRespProto_sites (\<lambda>x. Returns (ToString x)) (Returns ()) mo = Panics \<longleftrightarrow>
      mo = None"
  proof (cases mo)
    case None
    then show ?thesis by (simp add: parseEDSRespProto_sites_eq parseEDSRespProto_def)
  next
    case (Some c)
    with shape [of c] show ?thesis by (auto simp: parseEDSRespProto_sites_eq)
  qed
  have message:
    "(\<exists>u. parseEDSRespProto_sites (\<lambda>x. Returns (ToString x)) (Returns ()) (Some m) =
          Returns (u, None)) \<or>
     (\<exists>e. parseEDSRespProto_sites (\<lambda>x. Returns (ToString x)) (Returns ()) (Some m) =
          Returns (EndpointsUpdate_zero, Some e))"
    using shape [of m] by (simp add: parseEDSRespProto_sites_eq)
  obtain r uerr where uw: "unwrapResource r0 = (r, uerr)" by (cases "unwrapResource r0")
  obtain cla derr where dec: "Unmarshal (GetValue_any r) = (cla, derr)"
    by (cases "Unmarshal (GetValue_any r)")
  from shape [of cla] uw dec
  have "(\<exists>name u.
       unmarshalEndpointsResource unwrapResource IsEndpointsResource Unmarshal ToString r0 =
         Returns (name, u, None)) \<or>
    (\<exists>name e.
       unmarshalEndpointsResource unwrapResource IsEndpointsResource Unmarshal ToString r0 =
         Returns (name, EndpointsUpdate_zero, Some e))"
    by (cases uerr; cases derr; cases "IsEndpointsResource (GetTypeUrl r)")
      (auto simp: unmarshalEndpointsResource_def)
  then have resource: "(\<exists>name u.
       unmarshalEndpointsResource_sites (\<lambda>x. Returns (unwrapResource x))
         (\<lambda>x. Returns (IsEndpointsResource x)) (\<lambda>x. Returns (Unmarshal x))
         (\<lambda>x. Returns (ToString x)) (Returns ()) r0 = Returns (name, u, None)) \<or>
    (\<exists>name e.
       unmarshalEndpointsResource_sites (\<lambda>x. Returns (unwrapResource x))
         (\<lambda>x. Returns (IsEndpointsResource x)) (\<lambda>x. Returns (Unmarshal x))
         (\<lambda>x. Returns (ToString x)) (Returns ()) r0 =
         Returns (name, EndpointsUpdate_zero, Some e))"
    by (simp only: same)
  have collaborators:
    "unmarshalEndpointsResource_sites unwrap_call type_call decode_call string_call log_call r1 =
      Panics \<longrightarrow>
      (\<exists>x. unwrap_call x = Panics) \<or> (\<exists>x. type_call x = Panics) \<or>
      (\<exists>x. decode_call x = Panics) \<or> (\<exists>x. string_call x = Panics) \<or>
      log_call = Panics"
    by (rule impI) (rule sites_panic_is_collaborators)
  show ?thesis
    by (intro conjI)
      (rule same, rule same', rule nil, rule message, rule resource, rule collaborators)
qed

text \<open>
  The theorem at one input for each of the seven errors, each of which is returned, at the
  nil message, and at a logger that panics.
\<close>

theorem C9_never_panics_witness:
  "parseEDSRespProto_sites (\<lambda>x. Returns (sample_ToString x)) (Returns ())
     (Some (sample_message [sample_unidentified 1])) =
     Returns (EndpointsUpdate_zero, Some (LocalityWithoutID (sample_unidentified 1))) \<and>
   parseEDSRespProto_sites (\<lambda>x. Returns (sample_ToString x)) (Returns ())
     (Some (sample_message [sample_locality ''A'' 0 1 [1], sample_locality ''A'' 0 1 [1]])) =
     Returns (EndpointsUpdate_zero, Some (DuplicateLocality ''A//'' 0)) \<and>
   parseEDSRespProto_sites (\<lambda>x. Returns (sample_ToString x)) (Returns ())
     (Some (sample_message [sample_locality ''A'' 0 1 [0]])) =
     Returns (EndpointsUpdate_zero, Some (EndpointWithZeroWeight (sample_endpoint 0))) \<and>
   parseEDSRespProto_sites (\<lambda>x. Returns (sample_ToString x)) (Returns ())
     (Some (sample_message [sample_locality ''A'' 1 1 [1]])) =
     Returns (EndpointsUpdate_zero, Some (PriorityMissing 0 [(1, [''A//''])])) \<and>
   parseEDSRespProto_sites (\<lambda>x. Returns (sample_ToString x)) (Returns ()) None = Panics \<and>
   unmarshalEndpointsResource_sites (\<lambda>x. Returns (sample_unwrap_failing x))
     (\<lambda>x. Returns (sample_IsEndpointsResource x)) (\<lambda>x. Returns (sample_decode x))
     (\<lambda>x. Returns (sample_ToString x)) (Returns ()) None =
     Returns ([], EndpointsUpdate_zero, Some (FailedToUnwrapResource ''cannot unwrap'')) \<and>
   unmarshalEndpointsResource_sites (\<lambda>x. Returns (sample_unwrap x))
     (\<lambda>x. Returns (sample_IsEndpointsResource x)) (\<lambda>x. Returns (sample_decode x))
     (\<lambda>x. Returns (sample_ToString x)) (Returns ()) None =
     Returns ([], EndpointsUpdate_zero, Some (UnexpectedResourceType [])) \<and>
   unmarshalEndpointsResource_sites (\<lambda>x. Returns (sample_unwrap x))
     (\<lambda>x. Returns (sample_IsEndpointsResource x))
     (\<lambda>x. Returns (sample_Unmarshal_failing (sample_message []) x))
     (\<lambda>x. Returns (sample_ToString x)) (Returns ()) (Some sample_resource) =
     Returns ([], EndpointsUpdate_zero, Some (FailedToUnmarshalResource ''unexpected EOF'')) \<and>
   unmarshalEndpointsResource_sites (\<lambda>x. Returns (sample_unwrap x))
     (\<lambda>x. Returns (sample_IsEndpointsResource x)) (\<lambda>x. Returns (sample_decode x))
     (\<lambda>x. Returns (sample_ToString x)) Panics (Some (sample_payload [1])) = Panics \<and>
   ((\<exists>x. Returns (sample_unwrap x) = Panics) \<or>
    (\<exists>x. Returns (sample_IsEndpointsResource x) = Panics) \<or>
    (\<exists>x. Returns (sample_decode x) = Panics) \<or>
    (\<exists>x. Returns (sample_ToString x) = Panics) \<or>
    (Panics :: unit outcome) = Panics)"
proof -
  note parse = C9_never_panics [THEN conjunct2, THEN conjunct1]
  note resource = C9_never_panics [THEN conjunct1]
  have a: "parseEDSRespProto sample_ToString (Some (sample_message [sample_unidentified 1])) =
      Returns (EndpointsUpdate_zero, Some (LocalityWithoutID (sample_unidentified 1)))"
    by (simp add: eval_defs)
  have b: "parseEDSRespProto sample_ToString
      (Some (sample_message [sample_locality ''A'' 0 1 [1], sample_locality ''A'' 0 1 [1]])) =
      Returns (EndpointsUpdate_zero, Some (DuplicateLocality ''A//'' 0))"
    by (simp add: eval_defs)
  have c: "parseEDSRespProto sample_ToString (Some (sample_message [sample_locality ''A'' 0 1 [0]])) =
      Returns (EndpointsUpdate_zero, Some (EndpointWithZeroWeight (sample_endpoint 0)))"
    by (simp add: eval_defs)
  have d: "parseEDSRespProto sample_ToString (Some (sample_message [sample_locality ''A'' 1 1 [1]])) =
      Returns (EndpointsUpdate_zero, Some (PriorityMissing 0 [(1, [''A//''])]))"
    by (simp add: eval_defs)
  have e: "parseEDSRespProto sample_ToString None = Panics"
    by (simp add: parseEDSRespProto_def)
  have f: "unmarshalEndpointsResource sample_unwrap_failing sample_IsEndpointsResource
      sample_decode sample_ToString None =
      Returns ([], EndpointsUpdate_zero, Some (FailedToUnwrapResource ''cannot unwrap''))"
    by (simp add: unmarshalEndpointsResource_def sample_unwrap_failing_def)
  have g: "unmarshalEndpointsResource sample_unwrap sample_IsEndpointsResource sample_decode
      sample_ToString None =
      Returns ([], EndpointsUpdate_zero, Some (UnexpectedResourceType []))"
    by (simp add: unmarshalEndpointsResource_def sample_unwrap_def
        sample_IsEndpointsResource_def GetTypeUrl_def)
  have h: "unmarshalEndpointsResource sample_unwrap sample_IsEndpointsResource
      (sample_Unmarshal_failing (sample_message [])) sample_ToString (Some sample_resource) =
      Returns ([], EndpointsUpdate_zero, Some (FailedToUnmarshalResource ''unexpected EOF''))"
    by (simp add: unmarshalEndpointsResource_def sample_unwrap_def
        sample_IsEndpointsResource_def sample_Unmarshal_failing_def GetTypeUrl_def
        sample_resource_def)
  have i: "unmarshalEndpointsResource_sites (\<lambda>x. Returns (sample_unwrap x))
      (\<lambda>x. Returns (sample_IsEndpointsResource x)) (\<lambda>x. Returns (sample_decode x))
      (\<lambda>x. Returns (sample_ToString x)) Panics (Some (sample_payload [1])) = Panics"
    by (simp add: unmarshalEndpointsResource_sites_def and_then_def sample_unwrap_def
        sample_IsEndpointsResource_def sample_decode_def sample_payload_def GetTypeUrl_def
        GetValue_any_def)
  from C9_never_panics
         [where unwrap_call = "\<lambda>x. Returns (sample_unwrap x)"
            and type_call = "\<lambda>x. Returns (sample_IsEndpointsResource x)"
            and decode_call = "\<lambda>x. Returns (sample_decode x)"
            and string_call = "\<lambda>x. Returns (sample_ToString x)"
            and log_call = Panics and ?r1.0 = "Some (sample_payload [1])"] i
  have j: "(\<exists>x. Returns (sample_unwrap x) = Panics) \<or>
    (\<exists>x. Returns (sample_IsEndpointsResource x) = Panics) \<or>
    (\<exists>x. Returns (sample_decode x) = Panics) \<or>
    (\<exists>x. Returns (sample_ToString x) = Panics) \<or>
    (Panics :: unit outcome) = Panics" by blast
  from a b c d e f g h have "parseEDSRespProto_sites (\<lambda>x. Returns (sample_ToString x)) (Returns ())
     (Some (sample_message [sample_unidentified 1])) =
     Returns (EndpointsUpdate_zero, Some (LocalityWithoutID (sample_unidentified 1))) \<and>
   parseEDSRespProto_sites (\<lambda>x. Returns (sample_ToString x)) (Returns ())
     (Some (sample_message [sample_locality ''A'' 0 1 [1], sample_locality ''A'' 0 1 [1]])) =
     Returns (EndpointsUpdate_zero, Some (DuplicateLocality ''A//'' 0)) \<and>
   parseEDSRespProto_sites (\<lambda>x. Returns (sample_ToString x)) (Returns ())
     (Some (sample_message [sample_locality ''A'' 0 1 [0]])) =
     Returns (EndpointsUpdate_zero, Some (EndpointWithZeroWeight (sample_endpoint 0))) \<and>
   parseEDSRespProto_sites (\<lambda>x. Returns (sample_ToString x)) (Returns ())
     (Some (sample_message [sample_locality ''A'' 1 1 [1]])) =
     Returns (EndpointsUpdate_zero, Some (PriorityMissing 0 [(1, [''A//''])])) \<and>
   parseEDSRespProto_sites (\<lambda>x. Returns (sample_ToString x)) (Returns ()) None = Panics \<and>
   unmarshalEndpointsResource_sites (\<lambda>x. Returns (sample_unwrap_failing x))
     (\<lambda>x. Returns (sample_IsEndpointsResource x)) (\<lambda>x. Returns (sample_decode x))
     (\<lambda>x. Returns (sample_ToString x)) (Returns ()) None =
     Returns ([], EndpointsUpdate_zero, Some (FailedToUnwrapResource ''cannot unwrap'')) \<and>
   unmarshalEndpointsResource_sites (\<lambda>x. Returns (sample_unwrap x))
     (\<lambda>x. Returns (sample_IsEndpointsResource x)) (\<lambda>x. Returns (sample_decode x))
     (\<lambda>x. Returns (sample_ToString x)) (Returns ()) None =
     Returns ([], EndpointsUpdate_zero, Some (UnexpectedResourceType [])) \<and>
   unmarshalEndpointsResource_sites (\<lambda>x. Returns (sample_unwrap x))
     (\<lambda>x. Returns (sample_IsEndpointsResource x))
     (\<lambda>x. Returns (sample_Unmarshal_failing (sample_message []) x))
     (\<lambda>x. Returns (sample_ToString x)) (Returns ()) (Some sample_resource) =
     Returns ([], EndpointsUpdate_zero, Some (FailedToUnmarshalResource ''unexpected EOF''))"
    by (simp only: parse resource simp_thms)
  with i j show ?thesis by blast
qed

subsection \<open>C10: no partial update beside an error\<close>

text \<open>
  C10. Whenever \<open>parseEDSRespProto\<close> or \<open>unmarshalEndpointsResource\<close> returns an error,
  the update beside it is the zero value: no drops, no localities, no raw payload. The
  update of \<open>parseEDSRespProto\<close> never carries a raw payload; that of a successful
  \<open>unmarshalEndpointsResource\<close> carries the unwrapped resource.
\<close>

theorem C10_zero_update_on_error:
  "(parseEDSRespProto ToString mo = Returns (u, Some e) \<longrightarrow> u = EndpointsUpdate_zero) \<and>
   (parseEDSRespProto ToString mo = Returns (u, None) \<longrightarrow> Raw u = None) \<and>
   (unmarshalEndpointsResource unwrapResource IsEndpointsResource Unmarshal ToString r0 =
      Returns (name, u', Some e') \<longrightarrow>
        u' = EndpointsUpdate_zero \<and> Drops u' = [] \<and> Localities u' = [] \<and> Raw u' = None) \<and>
   (unmarshalEndpointsResource unwrapResource IsEndpointsResource Unmarshal ToString r0 =
      Returns (name, u', None) \<longrightarrow> Raw u' = fst (unwrapResource r0))"
proof (intro conjI impI)
  assume r: "parseEDSRespProto ToString mo = Returns (u, Some e)"
  show "u = EndpointsUpdate_zero"
  proof (cases mo)
    case None
    with r show ?thesis by (simp add: parseEDSRespProto_def)
  next
    case (Some a)
    with r show ?thesis by (simp add: parse_error_zero)
  qed
next
  assume r: "parseEDSRespProto ToString mo = Returns (u, None)"
  show "Raw u = None"
  proof (cases mo)
    case None
    with r show ?thesis by (simp add: parseEDSRespProto_def)
  next
    case (Some a)
    with r parse_success(2) [of ToString a u] show ?thesis by simp
  qed
next
  assume r: "unmarshalEndpointsResource unwrapResource IsEndpointsResource Unmarshal ToString r0 =
      Returns (name, u', Some e')"
  then have z: "u' = EndpointsUpdate_zero"
    by (auto simp: unmarshalEndpointsResource_def
        split: prod.splits option.splits if_splits outcome.splits)
  then show "u' = EndpointsUpdate_zero" "Drops u' = []" "Localities u' = []" "Raw u' = None"
    by (simp_all add: EndpointsUpdate_zero_def)
next
  assume "unmarshalEndpointsResource unwrapResource IsEndpointsResource Unmarshal ToString r0 =
      Returns (name, u', None)"
  then show "Raw u' = fst (unwrapResource r0)"
    by (auto simp: unmarshalEndpointsResource_def
        split: prod.splits option.splits if_splits outcome.splits)
qed

text \<open>
  The theorem at a message that fails at its second locality, after a drop policy and a
  locality have been parsed, and at a message that is accepted.
\<close>

theorem C10_zero_update_on_error_witness:
  "parseEDSRespProto sample_ToString
     (Some ((sample_message [sample_locality ''A'' 0 1 [1], sample_unidentified 1])
        \<lparr>cla_Policy := Some \<lparr>pol_DropOverloads = [sample_drop ''a'' 1 0]\<rparr>\<rparr>)) =
     Returns (EndpointsUpdate_zero, Some (LocalityWithoutID (sample_unidentified 1))) \<and>
   unmarshalEndpointsResource sample_unwrap sample_IsEndpointsResource
     (sample_Unmarshal
        ((sample_message [sample_locality ''A'' 0 1 [1], sample_unidentified 1])
           \<lparr>cla_Policy := Some \<lparr>pol_DropOverloads = [sample_drop ''a'' 1 0]\<rparr>\<rparr>))
     sample_ToString (Some sample_resource) =
     Returns (''cluster-a'', EndpointsUpdate_zero,
        Some (LocalityWithoutID (sample_unidentified 1))) \<and>
   Raw EndpointsUpdate_zero = None \<and>
   (\<exists>u. unmarshalEndpointsResource sample_unwrap sample_IsEndpointsResource
       (sample_Unmarshal (sample_message [sample_locality ''A'' 0 1 [1]]))
       sample_ToString (Some sample_resource) = Returns (''cluster-a'', u, None) \<and>
      Raw u = Some sample_resource)"
proof -
  let ?bad = "(sample_message [sample_locality ''A'' 0 1 [1], sample_unidentified 1])
        \<lparr>cla_Policy := Some \<lparr>pol_DropOverloads = [sample_drop ''a'' 1 0]\<rparr>\<rparr>"
  let ?good = "sample_message [sample_locality ''A'' 0 1 [1]]"
  let ?e = "LocalityWithoutID (sample_unidentified 1)"
  let ?u = "\<lparr>Drops = [], Localities = [native_locality (sample_locality ''A'' 0 1 [1])],
      Raw = None\<rparr>"
  obtain u0 where p: "parseEDSRespProto sample_ToString (Some ?bad) = Returns (u0, Some ?e)"
    by (simp add: eval_defs)
  have nb: "cla_ClusterName ?bad = ''cluster-a''" and ng: "cla_ClusterName ?good = ''cluster-a''"
    by (simp_all add: sample_message_def)
  obtain u1 where q: "unmarshalEndpointsResource sample_unwrap sample_IsEndpointsResource
      (sample_Unmarshal ?bad) sample_ToString (Some sample_resource) =
      Returns (''cluster-a'', u1, Some ?e)"
    by (simp add: unmarshalEndpointsResource_def p nb sample_unwrap_def sample_Unmarshal_def
        sample_IsEndpointsResource_def GetTypeUrl_def sample_resource_def)
  have ok: "parseEDSRespProto sample_ToString (Some ?good) = Returns (?u, None)"
    by (simp add: eval_defs native_locality_def locality_id_def endpoint_of_def)
  have ok': "unmarshalEndpointsResource sample_unwrap sample_IsEndpointsResource
      (sample_Unmarshal ?good) sample_ToString (Some sample_resource) =
      Returns (''cluster-a'', ?u\<lparr>Raw := Some sample_resource\<rparr>, None)"
    by (simp add: unmarshalEndpointsResource_def ok ng sample_unwrap_def sample_Unmarshal_def
        sample_IsEndpointsResource_def GetTypeUrl_def sample_resource_def)
  from C10_zero_update_on_error [where ToString = sample_ToString and mo = "Some ?bad"
      and u = u0 and e = ?e] p
  have a: "u0 = EndpointsUpdate_zero" by blast
  from C10_zero_update_on_error [where ToString = sample_ToString and mo = "Some ?good"
      and u = ?u] ok
  have b: "Raw ?u = None" by blast
  from C10_zero_update_on_error [where ToString = sample_ToString
      and unwrapResource = sample_unwrap and IsEndpointsResource = sample_IsEndpointsResource
      and Unmarshal = "sample_Unmarshal ?bad" and ?r0.0 = "Some sample_resource"
      and name = "''cluster-a''" and u' = u1 and e' = ?e] q
  have c: "u1 = EndpointsUpdate_zero \<and> Raw u1 = None" by blast
  from C10_zero_update_on_error [where ToString = sample_ToString
      and unwrapResource = sample_unwrap and IsEndpointsResource = sample_IsEndpointsResource
      and Unmarshal = "sample_Unmarshal ?good" and ?r0.0 = "Some sample_resource"
      and name = "''cluster-a''" and u' = "?u\<lparr>Raw := Some sample_resource\<rparr>"] ok'
  have d: "Raw (?u\<lparr>Raw := Some sample_resource\<rparr>) = fst (sample_unwrap (Some sample_resource))"
    by blast
  from p a have 1: "parseEDSRespProto sample_ToString (Some ?bad) =
      Returns (EndpointsUpdate_zero, Some ?e)" by simp
  from q c have 2: "unmarshalEndpointsResource sample_unwrap sample_IsEndpointsResource
      (sample_Unmarshal ?bad) sample_ToString (Some sample_resource) =
      Returns (''cluster-a'', EndpointsUpdate_zero, Some ?e)" by simp
  from c have 3: "Raw EndpointsUpdate_zero = None" by blast
  from ok' d have 4: "\<exists>u. unmarshalEndpointsResource sample_unwrap sample_IsEndpointsResource
       (sample_Unmarshal ?good) sample_ToString (Some sample_resource) =
         Returns (''cluster-a'', u, None) \<and> Raw u = Some sample_resource"
    by (simp add: sample_unwrap_def)
  from 1 2 3 4 show ?thesis by blast
qed

end
